theory Spec2Isabelle
  imports Complex_Main
begin

section \<open>Content model\<close>

text \<open>
  The shape of the creature data the engine reads (\<open>fallbackData.js\<close>, and the objects
  built by \<open>applySafeDefaultsToCreatureData\<close>). The JavaScript property \<open>id\<close> is the
  field \<open>id_field\<close> and \<open>text\<close> is \<open>text_field\<close>. A string is a list of characters,
  each standing for the UTF-16 code unit of the same number, U+0000 to U+00FF.
\<close>

record Choice =
  text_field :: string
  isCorrect :: bool
  consequence :: string

record RiddleData =
  riddle :: string
  hint :: string
  answerKey :: string

record Level =
  levelIndex :: nat
  sceneText :: string
  enrichedScene :: string
  choices :: "Choice list"
  riddleData :: "RiddleData option"

record Creature =
  id_field :: string
  name :: string
  coreMechanic :: string
  levels :: "Level list"

record CreatureData =
  creatures :: "Creature list"

section \<open>The game engine (\<open>useGameEngine.js\<close>)\<close>

datatype phase = intro | select | characterReveal | story | level | levelTransition | ended

datatype outcome_tag = victory | defeat

text \<open>
  A JavaScript number held in the calmness meter: \<open>undefined - 25\<close> is \<open>NaN\<close>, and
  \<open>Math.max(0, NaN)\<close> is \<open>NaN\<close>.
\<close>

datatype jsnumber = Number int | NaN

text \<open>
  \<open>mechanicState\<close> is a plain object; each of its three properties may be absent
  (\<open>None\<close>), as after \<open>setMechanicState({ hintsRevealed: 0 })\<close>.
\<close>

record MechanicState =
  hintsRevealed :: "int option"
  calmnessLevel :: "jsnumber option"
  tokensCollected :: "string list option"

record AnimationState =
  entranceComplete :: bool
  closeUpComplete :: bool
  storyComplete :: bool

text \<open>The \<open>useState\<close> cells of the hook, as one record.\<close>

record GameEngine =
  gameState :: phase
  selectedCreature :: "Creature option"
  currentLevel :: nat
  outcome :: "outcome_tag option"
  consequenceText :: string
  transitionFrom :: nat
  correctAnswers :: nat
  animationState :: AnimationState
  storyBubbleIndex :: nat
  mechanicState :: MechanicState

definition animationReset :: AnimationState where
  "animationReset = \<lparr>entranceComplete = False, closeUpComplete = False, storyComplete = False\<rparr>"

definition mechanicDefaults :: MechanicState where
  "mechanicDefaults = \<lparr>hintsRevealed = Some 0, calmnessLevel = Some (Number 100), tokensCollected = Some []\<rparr>"

definition initialEngine :: GameEngine where
  "initialEngine = \<lparr>gameState = intro, selectedCreature = None, currentLevel = 0, outcome = None,
     consequenceText = [], transitionFrom = 0, correctAnswers = 0, animationState = animationReset,
     storyBubbleIndex = 0, mechanicState = mechanicDefaults\<rparr>"

definition startGame :: "GameEngine \<Rightarrow> GameEngine" where
  "startGame s = s\<lparr>gameState := select\<rparr>"

text \<open>
  \<open>selectCreature\<close>: returns without any update when the data is not available or
  \<open>creatures.find\<close> finds no creature of that id. For a mechanic other than the three
  known ones no branch of the \<open>if\<close> chain runs and the mechanic state is kept.
\<close>

definition selectCreature :: "CreatureData option \<Rightarrow> string \<Rightarrow> GameEngine \<Rightarrow> GameEngine" where
  "selectCreature creatureData creatureId s =
     (case creatureData of
        None \<Rightarrow> s
      | Some d \<Rightarrow>
         (case find (\<lambda>c. id_field c = creatureId) (creatures d) of
            None \<Rightarrow> s
          | Some creature \<Rightarrow>
              s\<lparr>selectedCreature := Some creature,
                currentLevel := 0,
                outcome := None,
                consequenceText := [],
                storyBubbleIndex := 0,
                correctAnswers := 0,
                animationState := animationReset,
                mechanicState :=
                  (if coreMechanic creature = ''riddle''
                     then \<lparr>hintsRevealed = Some 0, calmnessLevel = None, tokensCollected = None\<rparr>
                   else if coreMechanic creature = ''calmness''
                     then \<lparr>hintsRevealed = None, calmnessLevel = Some (Number 100), tokensCollected = None\<rparr>
                   else if coreMechanic creature = ''deduction''
                     then \<lparr>hintsRevealed = None, calmnessLevel = None, tokensCollected = Some []\<rparr>
                   else mechanicState s),
                gameState := characterReveal\<rparr>))"

definition completeEntranceAnimation :: "GameEngine \<Rightarrow> GameEngine" where
  "completeEntranceAnimation s = s\<lparr>animationState := (animationState s)\<lparr>entranceComplete := True\<rparr>\<rparr>"

definition completeCloseUpAnimation :: "GameEngine \<Rightarrow> GameEngine" where
  "completeCloseUpAnimation s =
     s\<lparr>animationState := (animationState s)\<lparr>closeUpComplete := True\<rparr>, gameState := story\<rparr>"

definition advanceStoryBubble :: "GameEngine \<Rightarrow> GameEngine" where
  "advanceStoryBubble s =
     (case selectedCreature s of
        None \<Rightarrow> s
      | Some creature \<Rightarrow>
          (let totalBubbles = (if id_field creature = ''aswang'' then 5 else 4 :: int)
           in if int (storyBubbleIndex s) < totalBubbles - 1
                then s\<lparr>storyBubbleIndex := storyBubbleIndex s + 1\<rparr>
                else s\<lparr>animationState := (animationState s)\<lparr>storyComplete := True\<rparr>,
                       gameState := level\<rparr>))"

text \<open>
  Array reads: \<open>levels[currentLevel]\<close> and \<open>choices[choiceIndex]\<close> are \<open>undefined\<close>
  (\<open>None\<close>) outside the array; \<open>choiceIndex\<close> is any integer the caller passes.
\<close>

definition levelAt :: "'a list \<Rightarrow> nat \<Rightarrow> 'a option" where
  "levelAt xs i = (if i < length xs then Some (xs ! i) else None)"

definition choiceAt :: "'a list \<Rightarrow> int \<Rightarrow> 'a option" where
  "choiceAt xs i = (if 0 \<le> i \<and> i < int (length xs) then Some (xs ! nat i) else None)"

text \<open>\<open>Math.max(0, prev.calmnessLevel - decreaseAmount)\<close>.\<close>

definition decreaseCalmness :: "jsnumber option \<Rightarrow> int \<Rightarrow> jsnumber" where
  "decreaseCalmness c decreaseAmount =
     (case c of Some (Number n) \<Rightarrow> Number (max 0 (n - decreaseAmount)) | _ \<Rightarrow> NaN)"

definition decreaseAmountAt :: "nat \<Rightarrow> int" where
  "decreaseAmountAt lvl = (if lvl = 0 then 25 else if lvl = 1 then 30 else 35)"

text \<open>
  \<open>makeChoice\<close> returns the state after its synchronous updates and, when it called
  \<open>setTimeout\<close>, the level index the 2000 ms callback captured. At the final level it
  sets the outcome and the phase at once and schedules nothing.
\<close>

definition makeChoice :: "int \<Rightarrow> GameEngine \<Rightarrow> GameEngine \<times> nat option" where
  "makeChoice choiceIndex s =
     (case selectedCreature s of
        None \<Rightarrow> (s, None)
      | Some creature \<Rightarrow>
          if gameState s \<noteq> level then (s, None)
          else
            (case levelAt (levels creature) (currentLevel s) of
               None \<Rightarrow> (s, None)
             | Some levelData \<Rightarrow>
                 (case choiceAt (choices levelData) choiceIndex of
                    None \<Rightarrow> (s, None)
                  | Some choice \<Rightarrow>
                      (let s1 = s\<lparr>consequenceText := consequence choice\<rparr>;
                           s2 = (if coreMechanic creature = ''calmness'' \<and> \<not> isCorrect choice
                                 then s1\<lparr>mechanicState := (mechanicState s1)
                                        \<lparr>calmnessLevel :=
                                           Some (decreaseCalmness (calmnessLevel (mechanicState s1))
                                                   (decreaseAmountAt (currentLevel s)))\<rparr>\<rparr>
                                 else s1)
                       in if isCorrect choice
                          then
                            (let newCorrectCount = correctAnswers s + 1;
                                 s3 = s2\<lparr>correctAnswers := newCorrectCount\<rparr>
                             in if currentLevel s = 2
                                then (s3\<lparr>outcome := Some (if newCorrectCount \<ge> 2 then victory else defeat),
                                         gameState := ended\<rparr>, None)
                                else (s3, Some (currentLevel s)))
                          else
                            (if currentLevel s = 2
                             then (s2\<lparr>outcome := Some (if correctAnswers s \<ge> 2 then victory else defeat),
                                      gameState := ended\<rparr>, None)
                             else (s2, Some (currentLevel s)))))))"

text \<open>The callback \<open>makeChoice\<close> hands to \<open>setTimeout\<close>.\<close>

definition levelTransitionTimeout :: "nat \<Rightarrow> GameEngine \<Rightarrow> GameEngine" where
  "levelTransitionTimeout fromLevel s =
     s\<lparr>transitionFrom := fromLevel, gameState := levelTransition, consequenceText := []\<rparr>"

text \<open>
  \<open>makeChoice\<close> as the closure it is. \<open>useCallback\<close> rebuilds it whenever
  \<open>selectedCreature\<close>, \<open>currentLevel\<close>, \<open>gameState\<close> or \<open>correctAnswers\<close> change, and a
  callback kept from an earlier render \<open>r\<close> goes on reading those four values of \<open>r\<close>: its
  guards, the level it looks up, the decrement and the count it writes all come from \<open>r\<close>.
  The setters act on the state \<open>s\<close> at the time of the call, and only the updater passed
  to \<open>setMechanicState\<close> reads the current value. \<open>makeChoice i s\<close> above is the callback of
  the current render, \<open>r = s\<close>.
\<close>

definition makeChoiceCaptured :: "GameEngine \<Rightarrow> int \<Rightarrow> GameEngine \<Rightarrow> GameEngine \<times> nat option" where
  "makeChoiceCaptured r choiceIndex s =
     (case selectedCreature r of
        None \<Rightarrow> (s, None)
      | Some creature \<Rightarrow>
          if gameState r \<noteq> level then (s, None)
          else
            (case levelAt (levels creature) (currentLevel r) of
               None \<Rightarrow> (s, None)
             | Some levelData \<Rightarrow>
                 (case choiceAt (choices levelData) choiceIndex of
                    None \<Rightarrow> (s, None)
                  | Some choice \<Rightarrow>
                      (let s1 = s\<lparr>consequenceText := consequence choice\<rparr>;
                           s2 = (if coreMechanic creature = ''calmness'' \<and> \<not> isCorrect choice
                                 then s1\<lparr>mechanicState := (mechanicState s1)
                                        \<lparr>calmnessLevel :=
                                           Some (decreaseCalmness (calmnessLevel (mechanicState s1))
                                                   (decreaseAmountAt (currentLevel r)))\<rparr>\<rparr>
                                 else s1)
                       in if isCorrect choice
                          then
                            (let newCorrectCount = correctAnswers r + 1;
                                 s3 = s2\<lparr>correctAnswers := newCorrectCount\<rparr>
                             in if currentLevel r = 2
                                then (s3\<lparr>outcome := Some (if newCorrectCount \<ge> 2 then victory else defeat),
                                         gameState := ended\<rparr>, None)
                                else (s3, Some (currentLevel r)))
                          else
                            (if currentLevel r = 2
                             then (s2\<lparr>outcome := Some (if correctAnswers r \<ge> 2 then victory else defeat),
                                      gameState := ended\<rparr>, None)
                             else (s2, Some (currentLevel r)))))))"

definition completeLevelTransition :: "GameEngine \<Rightarrow> GameEngine" where
  "completeLevelTransition s = s\<lparr>currentLevel := currentLevel s + 1, gameState := level\<rparr>"

definition restartGame :: "GameEngine \<Rightarrow> GameEngine" where
  "restartGame s =
     s\<lparr>gameState := characterReveal,
       currentLevel := 0,
       outcome := None,
       correctAnswers := 0,
       consequenceText := [],
       storyBubbleIndex := 0,
       animationState := animationReset,
       mechanicState := mechanicDefaults\<rparr>"

definition goHome :: "GameEngine \<Rightarrow> GameEngine" where
  "goHome s =
     s\<lparr>selectedCreature := None,
       gameState := select,
       currentLevel := 0,
       outcome := None,
       correctAnswers := 0,
       consequenceText := [],
       storyBubbleIndex := 0,
       animationState := animationReset,
       mechanicState := mechanicDefaults\<rparr>"

text \<open>\<open>updateMechanicState\<close>: \<open>{ ...prev, ...updates }\<close>, a property of \<open>updates\<close> wins.\<close>

definition updateMechanicState :: "MechanicState \<Rightarrow> GameEngine \<Rightarrow> GameEngine" where
  "updateMechanicState updates s =
     s\<lparr>mechanicState :=
        \<lparr>hintsRevealed = (case hintsRevealed updates of Some v \<Rightarrow> Some v
                            | None \<Rightarrow> hintsRevealed (mechanicState s)),
         calmnessLevel = (case calmnessLevel updates of Some v \<Rightarrow> Some v
                            | None \<Rightarrow> calmnessLevel (mechanicState s)),
         tokensCollected = (case tokensCollected updates of Some v \<Rightarrow> Some v
                            | None \<Rightarrow> tokensCollected (mechanicState s))\<rparr>\<rparr>"

text \<open>
  One level of play: the choice, then (before the final level) the timer callback and the
  \<open>onComplete\<close> of the transition screen, which \<open>App\<close> wires to
  \<open>completeLevelTransition\<close>.
\<close>

definition playLevel :: "int \<Rightarrow> GameEngine \<Rightarrow> GameEngine" where
  "playLevel choiceIndex s =
     (case makeChoice choiceIndex s of
        (s', None) \<Rightarrow> s'
      | (s', Some fromLevel) \<Rightarrow> completeLevelTransition (levelTransitionTimeout fromLevel s'))"

definition completeRun :: "int \<Rightarrow> int \<Rightarrow> int \<Rightarrow> GameEngine \<Rightarrow> GameEngine" where
  "completeRun i0 i1 i2 s = playLevel i2 (playLevel i1 (playLevel i0 s))"

text \<open>The chosen \<open>Choice\<close> object at a level of a creature, when both indices are in range.\<close>

definition chosen :: "Creature \<Rightarrow> nat \<Rightarrow> int \<Rightarrow> Choice option" where
  "chosen creature lvl choiceIndex =
     (case levelAt (levels creature) lvl of
        None \<Rightarrow> None
      | Some levelData \<Rightarrow> choiceAt (choices levelData) choiceIndex)"

definition correctCount :: "Choice list \<Rightarrow> nat" where
  "correctCount cs = length (filter isCorrect cs)"

section \<open>Sample content\<close>

text \<open>The Banshee of \<open>fallbackData.js\<close>, in the engine's content model.\<close>

definition banshee :: Creature where
  "banshee = \<lparr>id_field = ''banshee'', name = ''Banshee'', coreMechanic = ''calmness'',
     levels = [
       \<lparr>levelIndex = 0,
        sceneText = ''The Banshee's eyes are hollow, filled with ancient grief.'',
        enrichedScene = ''Pale blue mist coils around her form. Her voice rises and falls like waves against stone. She reaches toward you, fingers trembling. 'Do you hear them? The voices of the lost?'' @ [CHR 0x27],
        choices = [
          \<lparr>text_field = ''Speak gently of remembrance'', isCorrect = True,
           consequence = ''Her wail softens. A tear falls, luminous and cold.''\<rparr>,
          \<lparr>text_field = ''Tell her to be silent'', isCorrect = False,
           consequence = ''Her scream shatters your mind. You fall, never to rise.''\<rparr>],
        riddleData = None\<rparr>,
       \<lparr>levelIndex = 1,
        sceneText = ''The Banshee drifts closer, her sorrow palpable.'',
        enrichedScene = ''Echo-waves ripple from her form, each one carrying fragments of memory. She sings of loss, of names forgotten. The air grows cold. 'Will you remember me?' she whispers.'',
        choices = [
          \<lparr>text_field = ''Promise to remember her name'', isCorrect = True,
           consequence = ''She smiles, faint as starlight. 'Thank you, kind soul.'' @ [CHR 0x27]\<rparr>,
          \<lparr>text_field = ''Turn away from her'', isCorrect = False,
           consequence = ''Her wail pierces your heart. You join the forgotten.''\<rparr>],
        riddleData = None\<rparr>,
       \<lparr>levelIndex = 2,
        sceneText = ''The Banshee's form begins to fade.'',
        enrichedScene = ''The mist thins. Her voice grows distant, elegiac and soft. She looks at you with eyes like deep water. 'One last question, traveler. Will you carry my song?'' @ [CHR 0x27],
        choices = [
          \<lparr>text_field = ''Accept her song with reverence'', isCorrect = True,
           consequence = ''She fades, peaceful at last. Her song lives in you.''\<rparr>,
          \<lparr>text_field = ''Refuse her burden'', isCorrect = False,
           consequence = ''She screams, and the world goes dark. You are lost.''\<rparr>],
        riddleData = None\<rparr>]\<rparr>"

text \<open>Baba Yaga of \<open>fallbackData.js\<close>, cut down to her first level.\<close>

definition riddler :: Creature where
  "riddler = \<lparr>id_field = ''baba-yaga'', name = ''Baba Yaga'', coreMechanic = ''riddle'',
     levels = [
       \<lparr>levelIndex = 0,
        sceneText = ''The witch's eyes gleam like amber coals.'',
        enrichedScene = [],
        choices = [
          \<lparr>text_field = ''Speak the answer with cleverness'', isCorrect = True,
           consequence = ''She nods, impressed. 'Clever tongue. Pass, then.'' @ [CHR 0x27]\<rparr>,
          \<lparr>text_field = ''Demand she let you pass'', isCorrect = False,
           consequence = ''The hut turns away. The forest swallows you whole.''\<rparr>],
        riddleData = Some \<lparr>riddle = ''What walks on four legs at dawn, two at noon, and three at dusk?'',
                            hint = ''Think of life's stages, from cradle to grave.'',
                            answerKey = ''human''\<rparr>\<rparr>]\<rparr>"

definition sampleData :: CreatureData where
  "sampleData = \<lparr>creatures = [riddler, banshee]\<rparr>"

text \<open>
  A Banshee session played from the intro: creature selected, both reveal animations
  completed, the four story bubbles advanced, so that the phase is \<open>level\<close>.
\<close>

definition bansheeStart :: GameEngine where
  "bansheeStart =
     advanceStoryBubble (advanceStoryBubble (advanceStoryBubble (advanceStoryBubble
       (completeCloseUpAnimation (completeEntranceAnimation
         (selectCreature (Some sampleData) ''banshee'' (startGame initialEngine)))))))"

text \<open>The same session after three choices (correct, incorrect, correct).\<close>

definition bansheeEnd :: GameEngine where
  "bansheeEnd = completeRun 0 1 0 bansheeStart"

text \<open>
  \<open>handleChoice\<close> of \<open>GameplayScreen\<close> hands \<open>onChoice(index)\<close> to a 4200 ms
  \<open>setTimeout\<close> that it never clears, and \<open>onChoice\<close> is the \<open>makeChoice\<close> of the render
  in which the player clicked. Here the player clicks a choice at level 0 of the Banshee
  session and presses Back, which is \<open>goHome\<close>, before the timer fires: the call arrives
  in the state \<open>goHome bansheeStart\<close> with the callback of \<open>bansheeStart\<close>.
\<close>

definition staleChoice :: "int \<Rightarrow> GameEngine \<times> nat option" where
  "staleChoice choiceIndex = makeChoiceCaptured bansheeStart choiceIndex (goHome bansheeStart)"

section \<open>The mechanic interfaces (\<open>Inventory.jsx\<close>, \<open>GameplayScreen\<close>)\<close>

text \<open>
  \<open>String.prototype.trim\<close> removes leading and trailing white space and line terminators.
  Of the code units U+0000 to U+00FF these are TAB, LF, VT, FF, CR, SPACE and the no-break
  space U+00A0 (U+0085 is neither).
\<close>

definition isWhiteSpace :: "char \<Rightarrow> bool" where
  "isWhiteSpace c =
     (c \<in> set [CHR 0x09, CHR 0x0A, CHR 0x0B, CHR 0x0C, CHR 0x0D, CHR '' '', CHR 0xA0])"

definition trim :: "string \<Rightarrow> string" where
  "trim s = rev (dropWhile isWhiteSpace (rev (dropWhile isWhiteSpace s)))"

text \<open>
  \<open>String.prototype.toLowerCase\<close> follows the Unicode case mapping. The code units
  U+0000 to U+00FF with a different lower case are \<open>A\<close>..\<open>Z\<close>, U+00C0..U+00D6 and
  U+00D8..U+00DE; each maps to the code unit 0x20 above it, within the same range. Every
  other one, the multiplication sign U+00D7 among them, is kept.
\<close>

definition upperCaseLetters :: string where
  "upperCaseLetters =
     ''ABCDEFGHIJKLMNOPQRSTUVWXYZ'' @
     [CHR 0xC0, CHR 0xC1, CHR 0xC2, CHR 0xC3, CHR 0xC4, CHR 0xC5, CHR 0xC6, CHR 0xC7,
      CHR 0xC8, CHR 0xC9, CHR 0xCA, CHR 0xCB, CHR 0xCC, CHR 0xCD, CHR 0xCE, CHR 0xCF,
      CHR 0xD0, CHR 0xD1, CHR 0xD2, CHR 0xD3, CHR 0xD4, CHR 0xD5, CHR 0xD6,
      CHR 0xD8, CHR 0xD9, CHR 0xDA, CHR 0xDB, CHR 0xDC, CHR 0xDD, CHR 0xDE]"

definition lowerCaseLetters :: string where
  "lowerCaseLetters =
     ''abcdefghijklmnopqrstuvwxyz'' @
     [CHR 0xE0, CHR 0xE1, CHR 0xE2, CHR 0xE3, CHR 0xE4, CHR 0xE5, CHR 0xE6, CHR 0xE7,
      CHR 0xE8, CHR 0xE9, CHR 0xEA, CHR 0xEB, CHR 0xEC, CHR 0xED, CHR 0xEE, CHR 0xEF,
      CHR 0xF0, CHR 0xF1, CHR 0xF2, CHR 0xF3, CHR 0xF4, CHR 0xF5, CHR 0xF6,
      CHR 0xF8, CHR 0xF9, CHR 0xFA, CHR 0xFB, CHR 0xFC, CHR 0xFD, CHR 0xFE]"

definition toLowerCaseChar :: "char \<Rightarrow> char" where
  "toLowerCaseChar c =
     (case map_of (zip upperCaseLetters lowerCaseLetters) c of
        Some l \<Rightarrow> l
      | None \<Rightarrow> c)"

definition toLowerCase :: "string \<Rightarrow> string" where
  "toLowerCase s = map toLowerCaseChar s"

text \<open>The \<open>useState\<close> cells of \<open>Inventory\<close> that the riddle interface uses.\<close>

record RiddleUI =
  riddleAnswer :: string
  showHint :: bool
  answerFeedback :: string

definition riddleUIReset :: RiddleUI where
  "riddleUIReset = \<lparr>riddleAnswer = [], showHint = False, answerFeedback = []\<rparr>"

text \<open>\<open>mechanicState.hintsRevealed || 0\<close>.\<close>

definition hintsOrZero :: "MechanicState \<Rightarrow> int" where
  "hintsOrZero ms = (case hintsRevealed ms of Some n \<Rightarrow> (if n \<noteq> 0 then n else 0) | None \<Rightarrow> 0)"

text \<open>
  \<open>handleSubmitAnswer\<close> of \<open>Inventory\<close>. It returns the local state after the
  synchronous \<open>setAnswerFeedback\<close> and, when it called \<open>setTimeout\<close>, the object that the
  500 ms callback will hand to \<open>onMechanicUpdate\<close>, computed from the mechanic state the
  handler closed over.
\<close>

definition handleSubmitAnswer :: "RiddleData \<Rightarrow> MechanicState \<Rightarrow> RiddleUI \<Rightarrow> RiddleUI \<times> MechanicState option" where
  "handleSubmitAnswer rd ms ui =
     (let normalizedAnswer = toLowerCase (trim (riddleAnswer ui));
          normalizedKey = toLowerCase (answerKey rd)
      in if normalizedAnswer = normalizedKey
         then (ui\<lparr>answerFeedback := ''Correct! The witch is pleased.''\<rparr>, None)
         else (ui\<lparr>answerFeedback := ''Incorrect. The witch frowns.''\<rparr>,
               if \<not> showHint ui
               then Some \<lparr>hintsRevealed = Some (hintsOrZero ms + 1), calmnessLevel = None,
                          tokensCollected = None\<rparr>
               else None))"

text \<open>
  One submission as the player makes it: the input's \<open>onChange\<close> stores the raw text, the
  form's \<open>onSubmit\<close> runs \<open>handleSubmitAnswer\<close>, and a scheduled callback then runs
  \<open>setShowHint(true)\<close> and \<open>onMechanicUpdate\<close>, which \<open>App\<close> wires to the engine's
  \<open>updateMechanicState\<close>.
\<close>

definition submitAnswer :: "RiddleData \<Rightarrow> string \<Rightarrow> RiddleUI \<times> GameEngine \<Rightarrow> RiddleUI \<times> GameEngine" where
  "submitAnswer rd rawInput st =
     (case st of (ui, eng) \<Rightarrow>
        (case handleSubmitAnswer rd (mechanicState eng) (ui\<lparr>riddleAnswer := rawInput\<rparr>) of
           (ui', None) \<Rightarrow> (ui', eng)
         | (ui', Some updates) \<Rightarrow> (ui'\<lparr>showHint := True\<rparr>, updateMechanicState updates eng)))"

text \<open>
  \<open>handleRiddleSubmit\<close> of \<open>GameplayScreen\<close>, over that component's own cells. It never
  calls \<open>onMechanicUpdate\<close>; its two timers set \<open>showHint\<close> (500 ms) and
  \<open>riddleSolved\<close> (1500 ms).
\<close>

record GameplayUI =
  gpRiddleAnswer :: string
  gpShowHint :: bool
  gpAnswerFeedback :: string
  riddleSolved :: bool
  riddleAttempts :: nat

datatype gameplay_timer = ShowHintTimer | RiddleSolvedTimer

definition handleRiddleSubmit :: "RiddleData option \<Rightarrow> GameplayUI \<Rightarrow> GameplayUI \<times> gameplay_timer option" where
  "handleRiddleSubmit rd ui =
     (let normalizedAnswer = toLowerCase (trim (gpRiddleAnswer ui));
          normalizedKey = (case rd of None \<Rightarrow> [] | Some r \<Rightarrow> toLowerCase (answerKey r))
      in if normalizedAnswer = normalizedKey
         then (ui\<lparr>gpAnswerFeedback := ''Correct! The witch is pleased. You may proceed.'',
                   riddleSolved := True, gpRiddleAnswer := []\<rparr>, None)
         else
           (let newAttempts = riddleAttempts ui + 1
            in if newAttempts = 1
               then (ui\<lparr>riddleAttempts := newAttempts,
                         gpAnswerFeedback := ''Incorrect. The witch frowns.'',
                         gpRiddleAnswer := []\<rparr>, Some ShowHintTimer)
               else (ui\<lparr>riddleAttempts := newAttempts,
                         gpAnswerFeedback := ''Incorrect again. The witch sighs and lets you pass anyway.'',
                         gpRiddleAnswer := []\<rparr>, Some RiddleSolvedTimer)))"

text \<open>The deduction interface: \<open>mechanicState.tokensCollected || []\<close>.\<close>

definition tokensOf :: "MechanicState \<Rightarrow> string list" where
  "tokensOf ms = (case tokensCollected ms of Some ts \<Rightarrow> ts | None \<Rightarrow> [])"

text \<open>\<open>handleTokenClick\<close> builds the object it hands to \<open>onMechanicUpdate\<close>.\<close>

definition handleTokenClick :: "MechanicState \<Rightarrow> string \<Rightarrow> MechanicState" where
  "handleTokenClick ms tokenId =
     (let newTokens = (if tokenId \<in> set (tokensOf ms)
                       then filter (\<lambda>i. i \<noteq> tokenId) (tokensOf ms)
                       else tokensOf ms @ [tokenId])
      in \<lparr>hintsRevealed = None, calmnessLevel = None, tokensCollected = Some newTokens\<rparr>)"

definition toggleToken :: "string \<Rightarrow> GameEngine \<Rightarrow> GameEngine" where
  "toggleToken tokenId eng = updateMechanicState (handleTokenClick (mechanicState eng) tokenId) eng"

definition validCombinations :: "string list list" where
  "validCombinations =
     [[''reversed-reflection'', ''no-shadow''],
      [''salt-reaction'', ''garlic-aversion''],
      [''extended-tongue'', ''leathery-wings'']]"

definition validateCombination :: "MechanicState \<Rightarrow> bool" where
  "validateCombination ms =
     list_ex (\<lambda>combo. list_all (\<lambda>token. token \<in> set (tokensOf ms)) combo) validCombinations"

text \<open>Sample riddle content and sessions for the riddle and deduction interfaces.\<close>

definition humanRiddle :: RiddleData where
  "humanRiddle = \<lparr>riddle = ''What walks on four legs at dawn, two at noon, and three at dusk?'',
                   hint = ''Think of life's stages, from cradle to grave.'',
                   answerKey = ''human''\<rparr>"

definition paddedRiddle :: RiddleData where
  "paddedRiddle = humanRiddle\<lparr>answerKey := '' Human ''\<rparr>"

definition riddlerStart :: GameEngine where
  "riddlerStart =
     advanceStoryBubble (advanceStoryBubble (advanceStoryBubble (advanceStoryBubble
       (completeCloseUpAnimation (completeEntranceAnimation
         (selectCreature (Some sampleData) ''baba-yaga'' (startGame initialEngine)))))))"

definition deductionEngine :: "string list \<Rightarrow> GameEngine" where
  "deductionEngine ts = initialEngine\<lparr>gameState := level,
     mechanicState := \<lparr>hintsRevealed = None, calmnessLevel = None, tokensCollected = Some ts\<rparr>\<rparr>"

section \<open>JavaScript values\<close>

text \<open>
  What \<open>response.json()\<close> can yield, with \<open>undefined\<close> for a property that is absent.
  An object keeps its properties in source order; a repeated key reads as its last
  occurrence, as \<open>JSON.parse\<close> leaves it.
\<close>

datatype jsval =
    JUndefined
  | JNull
  | JBool bool
  | JNum rat
  | JStr string
  | JArr "jsval list"
  | JObj "(string \<times> jsval) list"

datatype js_error = TypeError | SyntaxError | NetworkFailure

text \<open>A computation that may throw: \<open>Inl\<close> is the thrown error.\<close>

definition bindE :: "js_error + 'a \<Rightarrow> ('a \<Rightarrow> js_error + 'b) \<Rightarrow> js_error + 'b" where
  "bindE m f = (case m of Inl e \<Rightarrow> Inl e | Inr x \<Rightarrow> f x)"

fun truthy :: "jsval \<Rightarrow> bool" where
  "truthy JUndefined = False"
| "truthy JNull = False"
| "truthy (JBool b) = b"
| "truthy (JNum n) = (n \<noteq> 0)"
| "truthy (JStr s) = (s \<noteq> [])"
| "truthy (JArr xs) = True"
| "truthy (JObj kvs) = True"

text \<open>\<open>typeof v === 'object'\<close> holds of \<open>null\<close>, arrays and objects.\<close>

fun typeofObject :: "jsval \<Rightarrow> bool" where
  "typeofObject JNull = True"
| "typeofObject (JArr xs) = True"
| "typeofObject (JObj kvs) = True"
| "typeofObject v = False"

text \<open>
  Reading a property: a \<open>TypeError\<close> on \<open>undefined\<close> and \<open>null\<close>. None of the property
  names the loader reads is a property of a boolean, number, string or array, so there the
  read is \<open>undefined\<close>.
\<close>

fun getProp :: "jsval \<Rightarrow> string \<Rightarrow> js_error + jsval" where
  "getProp JUndefined k = Inl TypeError"
| "getProp JNull k = Inl TypeError"
| "getProp (JObj kvs) k = Inr (case map_of (rev kvs) k of Some v \<Rightarrow> v | None \<Rightarrow> JUndefined)"
| "getProp v k = Inr JUndefined"

text \<open>\<open>a || b\<close> and \<open>a ?? b\<close> on values already computed.\<close>

definition jsOr :: "jsval \<Rightarrow> jsval \<Rightarrow> jsval" where
  "jsOr a b = (if truthy a then a else b)"

definition jsNullish :: "jsval \<Rightarrow> jsval \<Rightarrow> jsval" where
  "jsNullish a b = (if a = JUndefined \<or> a = JNull then b else a)"

text \<open>\<open>Array.prototype.map\<close> and \<open>every\<close> with a callback that may throw.\<close>

fun mapE :: "('a \<Rightarrow> js_error + 'b) \<Rightarrow> 'a list \<Rightarrow> js_error + 'b list" where
  "mapE f [] = Inr []"
| "mapE f (x # xs) = bindE (f x) (\<lambda>y. bindE (mapE f xs) (\<lambda>ys. Inr (y # ys)))"

fun everyE :: "('a \<Rightarrow> js_error + bool) \<Rightarrow> 'a list \<Rightarrow> js_error + bool" where
  "everyE f [] = Inr True"
| "everyE f (x # xs) = bindE (f x) (\<lambda>b. if b then everyE f xs else Inr False)"

text \<open>
  \<open>v.map(f)\<close> on a value that is not known to be an array: anything but an array has no
  callable \<open>map\<close>, and the call throws a \<open>TypeError\<close>.
\<close>

definition arrayMap :: "jsval \<Rightarrow> (jsval \<Rightarrow> js_error + jsval) \<Rightarrow> js_error + jsval" where
  "arrayMap v f =
     (case v of
        JArr xs \<Rightarrow> bindE (mapE f xs) (\<lambda>ys. Inr (JArr ys))
      | _ \<Rightarrow> Inl TypeError)"

section \<open>The embedded fallback content (\<open>fallbackData.js\<close>)\<close>

definition fallbackBabaYaga :: jsval where
  "fallbackBabaYaga =
     JObj [
       (''id'', JStr ''baba-yaga''),
       (''name'', JStr ''Baba Yaga''),
       (''enrichedIntros'', JArr [
         JStr ''In a ring of birch, a hut breathes smoke and whispers. Chicken legs creak beneath warped wood. The witch waits, her mortar idle, her pestle gleaming. She offers riddles, not mercy.'',
         JStr (''The forest parts. A hut stands on chicken legs, scratching at the earth. Baba Yaga peers from the window, her grin crooked and knowing. 'Come closer, traveler. Let's see if you're clever.'' @ [CHR 0x27]),
         JStr ''Bone-white birch trees circle the clearing. The hut spins slowly, its door facing you. Inside, the witch stirs her cauldron, humming riddles. Will you answer, or will you flee?'']),
       (''coreMechanic'', JStr ''riddle''),
       (''levels'', JArr [
         JObj [
           (''levelIndex'', JNum 0),
           (''sceneText'', JStr ''The witch's eyes gleam like amber coals.''),
           (''enrichedScene'', JStr (''Amber light spills from the window slats. Runes carved in bone dangle from the eaves, spinning slow. Baba Yaga leans forward, her grin sharp as winter. 'Answer me this, traveler.'' @ [CHR 0x27])),
           (''choices'', JArr [
             JObj [
               (''text'', JStr ''Speak the answer with cleverness''),
               (''isCorrect'', JBool True),
               (''consequence'', JStr (''She nods, impressed. 'Clever tongue. Pass, then.'' @ [CHR 0x27]))],
             JObj [
               (''text'', JStr ''Demand she let you pass''),
               (''isCorrect'', JBool False),
               (''consequence'', JStr ''The hut turns away. The forest swallows you whole.'')]]),
           (''riddleData'', JObj [
             (''riddle'', JStr ''What walks on four legs at dawn, two at noon, and three at dusk?''),
             (''hint'', JStr ''Think of life's stages, from cradle to grave.''),
             (''answerKey'', JStr ''human'')])],
         JObj [
           (''levelIndex'', JNum 1),
           (''sceneText'', JStr ''The witch circles you, her pestle tapping the ground.''),
           (''enrichedScene'', JStr (''Smoke curls from her pipe, thick and sweet. The hut's walls creak, listening. She taps her pestle once, twice. 'Another riddle, little mouse. Answer well.'' @ [CHR 0x27])),
           (''choices'', JArr [
             JObj [
               (''text'', JStr ''Answer with wisdom''),
               (''isCorrect'', JBool True),
               (''consequence'', JStr (''Her cackle echoes. 'Wise indeed. Proceed.'' @ [CHR 0x27]))],
             JObj [
               (''text'', JStr ''Refuse to answer''),
               (''isCorrect'', JBool False),
               (''consequence'', JStr ''She waves her hand. You become a frog, forever croaking.'')]]),
           (''riddleData'', JObj [
             (''riddle'', JStr ''I have cities but no houses, forests but no trees, water but no fish. What am I?''),
             (''hint'', JStr ''You hold me to find your way.''),
             (''answerKey'', JStr ''map'')])],
         JObj [
           (''levelIndex'', JNum 2),
           (''sceneText'', JStr ''The witch offers one final test.''),
           (''enrichedScene'', JStr (''The hut settles, its legs folding beneath. Baba Yaga's eyes soften, just a fraction. 'One last riddle, traveler. Answer true, and I grant you passage beyond the veil.'' @ [CHR 0x27])),
           (''choices'', JArr [
             JObj [
               (''text'', JStr ''Solve the final riddle''),
               (''isCorrect'', JBool True),
               (''consequence'', JStr (''She smiles, a rare gift. 'Go, blessed one.'' @ [CHR 0x27]))],
             JObj [
               (''text'', JStr ''Guess wildly''),
               (''isCorrect'', JBool False),
               (''consequence'', JStr ''The hut's door slams shut. You are lost to the woods.'')]]),
           (''riddleData'', JObj [
             (''riddle'', JStr ''The more you take, the more you leave behind. What am I?''),
             (''hint'', JStr ''Every journey makes them.''),
             (''answerKey'', JStr ''footsteps'')])]]),
       (''victoryTexts'', JArr [
         JStr ''The witch grants you passage. Her blessing burns warm in your chest, a gift of old magic.'',
         JStr ''Baba Yaga cackles with delight. 'Clever one! Go forth with my favor.' The forest opens before you, welcoming.'',
         JStr ''She nods, satisfied. 'You've earned your way, riddler.' Her magic settles on your shoulders like a cloak of stars.'']),
       (''defeatTexts'', JArr [
         JStr ''The forest swallows your path. Baba Yaga's laughter echoes through the birch trees, fading into mist.'',
         JStr ''The hut turns its back. You stumble through endless woods, lost forever. The witch's cackle follows you into darkness.'',
         JStr ''She waves her pestle. The world tilts. You are something small now, scurrying through the underbrush, forgotten.''])]"

definition fallbackBanshee :: jsval where
  "fallbackBanshee =
     JObj [
       (''id'', JStr ''banshee''),
       (''name'', JStr ''Banshee''),
       (''enrichedIntros'', JArr [
         JStr ''A keening cry splits the mist. She appears, pale as moonlight, her hair flowing like water. The Banshee mourns, and her sorrow drowns the living. Speak softly, or be lost to her wail.'',
         JStr ''The mist thickens. A voice rises, elegiac and ancient. She drifts toward you, translucent and grieving. The Banshee remembers all who are forgotten. Will you listen to her lament?'',
         JStr ''Cold wind carries her song. The Banshee materializes, eyes hollow with centuries of loss. Her sorrow is a tide that pulls the living under. Tread carefully, speak gently.'']),
       (''coreMechanic'', JStr ''calmness''),
       (''levels'', JArr [
         JObj [
           (''levelIndex'', JNum 0),
           (''sceneText'', JStr ''The Banshee's eyes are hollow, filled with ancient grief.''),
           (''enrichedScene'', JStr (''Pale blue mist coils around her form. Her voice rises and falls like waves against stone. She reaches toward you, fingers trembling. 'Do you hear them? The voices of the lost?'' @ [CHR 0x27])),
           (''choices'', JArr [
             JObj [
               (''text'', JStr ''Speak gently of remembrance''),
               (''isCorrect'', JBool True),
               (''consequence'', JStr ''Her wail softens. A tear falls, luminous and cold.'')],
             JObj [
               (''text'', JStr ''Tell her to be silent''),
               (''isCorrect'', JBool False),
               (''consequence'', JStr ''Her scream shatters your mind. You fall, never to rise.'')]])],
         JObj [
           (''levelIndex'', JNum 1),
           (''sceneText'', JStr ''The Banshee drifts closer, her sorrow palpable.''),
           (''enrichedScene'', JStr ''Echo-waves ripple from her form, each one carrying fragments of memory. She sings of loss, of names forgotten. The air grows cold. 'Will you remember me?' she whispers.''),
           (''choices'', JArr [
             JObj [
               (''text'', JStr ''Promise to remember her name''),
               (''isCorrect'', JBool True),
               (''consequence'', JStr (''She smiles, faint as starlight. 'Thank you, kind soul.'' @ [CHR 0x27]))],
             JObj [
               (''text'', JStr ''Turn away from her''),
               (''isCorrect'', JBool False),
               (''consequence'', JStr ''Her wail pierces your heart. You join the forgotten.'')]])],
         JObj [
           (''levelIndex'', JNum 2),
           (''sceneText'', JStr ''The Banshee's form begins to fade.''),
           (''enrichedScene'', JStr (''The mist thins. Her voice grows distant, elegiac and soft. She looks at you with eyes like deep water. 'One last question, traveler. Will you carry my song?'' @ [CHR 0x27])),
           (''choices'', JArr [
             JObj [
               (''text'', JStr ''Accept her song with reverence''),
               (''isCorrect'', JBool True),
               (''consequence'', JStr ''She fades, peaceful at last. Her song lives in you.'')],
             JObj [
               (''text'', JStr ''Refuse her burden''),
               (''isCorrect'', JBool False),
               (''consequence'', JStr ''She screams, and the world goes dark. You are lost.'')]])]]),
       (''victoryTexts'', JArr [
         JStr ''The Banshee fades into mist, her sorrow eased. You carry her song, a haunting melody of remembrance.'',
         JStr ''She smiles, a ghost of warmth. 'You have given me peace.' Her form dissolves, leaving only echoes of gratitude.'',
         JStr ''The wail softens to a lullaby. She fades, finally at rest. Her memory lives in you, gentle and eternal.'']),
       (''defeatTexts'', JArr [
         JStr ''Her wail consumes you. You become another voice in her eternal chorus, lost to the mist forever.'',
         JStr ''The scream pierces your soul. You fall, joining the forgotten. The Banshee's sorrow claims another, endlessly mourning.'',
         JStr ''Her cry shatters you. The mist closes in. You are lost now, a name she will sing in her endless lament.''])]"

definition fallbackAswang :: jsval where
  "fallbackAswang =
     JObj [
       (''id'', JStr ''aswang''),
       (''name'', JStr ''Aswang''),
       (''enrichedIntros'', JArr [
         JStr ''In the village, lanterns flicker and die. Something moves in the shadows, wearing a familiar face. The Aswang hunts, patient and hungry. Watch closely. Trust nothing.'',
         JStr ''Night falls on the village. Dogs bark warnings. A neighbor waves from the darkness, but their shadow falls wrong. The Aswang is here. Stay sharp, stay alive.'',
         JStr ''The village sleeps uneasily. Lantern flames gutter and die. Something prowls between the houses, wearing stolen skin. The Aswang is hunting. Will you survive until dawn?'']),
       (''coreMechanic'', JStr ''deduction''),
       (''levels'', JArr [
         JObj [
           (''levelIndex'', JNum 0),
           (''sceneText'', JStr ''A neighbor approaches, smiling too wide.''),
           (''enrichedScene'', JStr (''Red-tinted fog creeps through the village streets. Lantern light flickers, casting long shadows. The neighbor's eyes catch the light strangely. 'Come closer,' they say. 'I have something to show you.'' @ [CHR 0x27])),
           (''choices'', JArr [
             JObj [
               (''text'', JStr ''Check for the telltale signs''),
               (''isCorrect'', JBool True),
               (''consequence'', JStr ''You spot the reversed reflection. It's not human.'')],
             JObj [
               (''text'', JStr ''Trust the familiar face''),
               (''isCorrect'', JBool False),
               (''consequence'', JStr ''Too late, you see the truth. The Aswang feeds.'')]])],
         JObj [
           (''levelIndex'', JNum 1),
           (''sceneText'', JStr ''The creature circles, testing your awareness.''),
           (''enrichedScene'', JStr ''Shadows twist and writhe. The Aswang wears many faces now, shifting between forms. Dogs howl in the distance. You must choose wisely, or become prey.''),
           (''choices'', JArr [
             JObj [
               (''text'', JStr ''Use salt and garlic to reveal it''),
               (''isCorrect'', JBool True),
               (''consequence'', JStr ''It recoils, hissing. You've found the truth.'')],
             JObj [
               (''text'', JStr ''Follow it into the dark''),
               (''isCorrect'', JBool False),
               (''consequence'', JStr ''The darkness swallows you. You are never seen again.'')]])],
         JObj [
           (''levelIndex'', JNum 2),
           (''sceneText'', JStr ''The Aswang reveals its true form.''),
           (''enrichedScene'', JStr ''The creature sheds its human skin. Leathery wings unfold. Its tongue extends, impossibly long. This is your final chance to survive the night. Choose with care.''),
           (''choices'', JArr [
             JObj [
               (''text'', JStr ''Strike with blessed weapons''),
               (''isCorrect'', JBool True),
               (''consequence'', JStr ''Your blade finds its mark. The creature flees, wounded.'')],
             JObj [
               (''text'', JStr ''Try to reason with it''),
               (''isCorrect'', JBool False),
               (''consequence'', JStr ''It laughs, a terrible sound. You become its meal.'')]])]]),
       (''victoryTexts'', JArr [
         JStr ''The Aswang flees into the night, wounded and wary. The village is safe, for now. You are a hunter.'',
         JStr ''Your blade strikes true. The creature shrieks and vanishes into darkness. Dawn breaks. The village is saved, and you stand victorious.'',
         JStr ''It recoils, hissing in pain. The Aswang retreats, defeated. The roosters crow. You've survived the night, a guardian of the village.'']),
       (''defeatTexts'', JArr [
         JStr ''The Aswang's hunger is satisfied. The village mourns another loss, never knowing the truth of your fate.'',
         JStr ''Too slow. The creature's tongue wraps around you. Darkness. The village wakes to find you gone, another mystery unsolved.'',
         JStr ''You trusted the wrong face. The Aswang feeds. By morning, you're just another disappearance, whispered about in fearful tones.''])]"

definition fallbackCreatureData :: jsval where
  "fallbackCreatureData =
     JObj [(''creatures'', JArr [fallbackBabaYaga, fallbackBanshee, fallbackAswang])]"

definition fallbackUIConfig :: jsval where
  "fallbackUIConfig =
     JObj [
       (''creatures'', JObj [
         (''baba-yaga'', JObj [
           (''primaryColor'', JStr ''#FFB84D''),
           (''secondaryColor'', JStr ''#FF8C42''),
           (''fogColor'', JStr ''rgba(255, 184, 77, 0.3)''),
           (''particleType'', JStr ''rune-glow''),
           (''particleColor'', JStr ''#FFD700''),
           (''animationSpeed'', JNum (6 / 5)),
           (''glowIntensity'', JNum (4 / 5))]),
         (''banshee'', JObj [
           (''primaryColor'', JStr ''#B8D4E8''),
           (''secondaryColor'', JStr ''#7BA8C7''),
           (''fogColor'', JStr ''rgba(184, 212, 232, 0.35)''),
           (''particleType'', JStr ''echo-wave''),
           (''particleColor'', JStr ''#E0F2FF''),
           (''animationSpeed'', JNum (9 / 10)),
           (''glowIntensity'', JNum (3 / 5))]),
         (''aswang'', JObj [
           (''primaryColor'', JStr ''#D32F2F''),
           (''secondaryColor'', JStr ''#8B0000''),
           (''fogColor'', JStr ''rgba(211, 47, 47, 0.4)''),
           (''particleType'', JStr ''flicker''),
           (''particleColor'', JStr ''#FF6B6B''),
           (''animationSpeed'', JNum (3 / 2)),
           (''glowIntensity'', JNum (9 / 10))])]),
       (''gameStates'', JObj [
         (''calm'', JObj [
           (''fogDensity'', JNum (3 / 10)),
           (''particleCount'', JNum 20),
           (''animationIntensity'', JNum (1 / 2)),
           (''screenTilt'', JBool False),
           (''vignette'', JBool False),
           (''distortion'', JBool False)]),
         (''tense'', JObj [
           (''fogDensity'', JNum (11 / 20)),
           (''particleCount'', JNum 40),
           (''animationIntensity'', JNum (4 / 5)),
           (''screenTilt'', JBool True),
           (''vignetteIntensity'', JNum (3 / 10)),
           (''vignette'', JBool True),
           (''distortion'', JBool False)]),
         (''critical'', JObj [
           (''fogDensity'', JNum (17 / 20)),
           (''particleCount'', JNum 60),
           (''animationIntensity'', JNum 1),
           (''screenTilt'', JBool True),
           (''vignetteIntensity'', JNum (3 / 5)),
           (''vignette'', JBool True),
           (''distortion'', JBool True),
           (''distortionAmount'', JNum (1 / 50))])]),
       (''soundCues'', JObj [
         (''choice-select'', JObj [
           (''descriptor'', JStr ''soft-neon-chime''),
           (''visualEffect'', JStr ''ripple''),
           (''duration'', JNum 300)]),
         (''correct-choice'', JObj [
           (''descriptor'', JStr ''warm-glow-hum''),
           (''visualEffect'', JStr ''pulse''),
           (''duration'', JNum 500)]),
         (''incorrect-choice'', JObj [
           (''descriptor'', JStr ''hollow-echo''),
           (''visualEffect'', JStr ''shake''),
           (''duration'', JNum 400)]),
         (''level-complete'', JObj [
           (''descriptor'', JStr ''ascending-shimmer''),
           (''visualEffect'', JStr ''ripple''),
           (''duration'', JNum 600)]),
         (''game-over'', JObj [
           (''descriptor'', JStr ''descending-drone''),
           (''visualEffect'', JStr ''fade''),
           (''duration'', JNum 800)]),
         (''victory'', JObj [
           (''descriptor'', JStr ''triumphant-chime''),
           (''visualEffect'', JStr ''burst''),
           (''duration'', JNum 1000)])]),
       (''transitions'', JObj [
         (''stateChange'', JStr ''350ms ease-in-out''),
         (''sceneTransition'', JStr ''420ms cubic-bezier(0.4, 0, 0.2, 1)''),
         (''choiceFeedback'', JStr ''200ms ease-out''),
         (''fogShift'', JStr ''500ms ease-in-out''),
         (''particleSpawn'', JStr ''300ms ease-in'')]),
       (''accessibility'', JObj [
         (''reducedMotion'', JObj [
           (''disableParallax'', JBool True),
           (''disableParticles'', JBool True),
           (''simplifyAnimations'', JBool True),
           (''staticFog'', JBool True)]),
         (''contrastRatios'', JObj [
           (''minimum'', JNum (9 / 2)),
           (''enhanced'', JNum 7)]),
         (''focusRingWidth'', JStr ''3px''),
         (''focusRingColor'', JStr ''#4A90E2'')]),
       (''performance'', JObj [
         (''lowPowerMode'', JObj [
           (''particleCount'', JNum 10),
           (''animationFrameRate'', JNum 30),
           (''simplifyEffects'', JBool True)]),
         (''defaultFrameRate'', JNum 60),
         (''particleLifetime'', JNum 5000)])]"

section \<open>The content loader (\<open>dataLoader.js\<close>)\<close>

definition validateCreatureData :: "jsval \<Rightarrow> js_error + bool" where
  "validateCreatureData data =
     (if \<not> truthy data \<or> \<not> typeofObject data then Inr False
      else bindE (getProp data ''creatures'') (\<lambda>cs.
        case cs of
          JArr arr \<Rightarrow>
            everyE (\<lambda>creature.
              bindE (getProp creature ''id'') (\<lambda>i.
                if \<not> truthy i then Inr False
                else bindE (getProp creature ''name'') (\<lambda>n.
                  if \<not> truthy n then Inr False
                  else bindE (getProp creature ''levels'') (\<lambda>ls.
                    Inr (case ls of JArr l \<Rightarrow> length l > 0 | _ \<Rightarrow> False)))))
              arr
        | _ \<Rightarrow> Inr False))"

text \<open>
  \<open>validateUIConfig\<close> returns the value of its \<open>&&\<close> chain, which the caller tests for
  truthiness.
\<close>

definition validateUIConfig :: "jsval \<Rightarrow> js_error + jsval" where
  "validateUIConfig config =
     (if \<not> truthy config \<or> \<not> typeofObject config then Inr (JBool False)
      else bindE (getProp config ''creatures'') (\<lambda>c.
        if \<not> truthy c then Inr c
        else bindE (getProp config ''gameStates'') (\<lambda>g.
          if \<not> truthy g then Inr g
          else if \<not> typeofObject c then Inr (JBool False)
          else Inr (JBool (typeofObject g)))))"

text \<open>\<open>obj.key || dflt\<close> and \<open>obj.key ?? dflt\<close>.\<close>

definition propOr :: "jsval \<Rightarrow> string \<Rightarrow> jsval \<Rightarrow> js_error + jsval" where
  "propOr obj k dflt = bindE (getProp obj k) (\<lambda>v. Inr (jsOr v dflt))"

definition propNullish :: "jsval \<Rightarrow> string \<Rightarrow> jsval \<Rightarrow> js_error + jsval" where
  "propNullish obj k dflt = bindE (getProp obj k) (\<lambda>v. Inr (jsNullish v dflt))"

text \<open>The three nested callbacks of \<open>applySafeDefaultsToCreatureData\<close>, innermost first.\<close>

definition defaultChoice :: "jsval \<Rightarrow> js_error + jsval" where
  "defaultChoice choice =
     bindE (propOr choice ''text'' (JStr ''Continue'')) (\<lambda>t.
     bindE (propNullish choice ''isCorrect'' (JBool False)) (\<lambda>c.
     bindE (propOr choice ''consequence'' (JStr [])) (\<lambda>q.
       Inr (JObj [(''text'', t), (''isCorrect'', c), (''consequence'', q)]))))"

definition defaultRiddleData :: "jsval \<Rightarrow> js_error + jsval" where
  "defaultRiddleData lvl =
     bindE (getProp lvl ''riddleData'') (\<lambda>rd.
       if truthy rd
       then bindE (propOr rd ''riddle'' (JStr [])) (\<lambda>r.
            bindE (propOr rd ''hint'' (JStr [])) (\<lambda>h.
            bindE (propOr rd ''answerKey'' (JStr [])) (\<lambda>a.
              Inr (JObj [(''riddle'', r), (''hint'', h), (''answerKey'', a)]))))
       else Inr JUndefined)"

definition defaultLevel :: "jsval \<Rightarrow> js_error + jsval" where
  "defaultLevel lvl =
     bindE (propNullish lvl ''levelIndex'' (JNum 0)) (\<lambda>li.
     bindE (propOr lvl ''sceneText'' (JStr [])) (\<lambda>st.
     bindE (getProp lvl ''enrichedScene'') (\<lambda>es.
     bindE (getProp lvl ''sceneText'') (\<lambda>st2.
     bindE (propOr lvl ''choices'' (JArr [])) (\<lambda>chs.
     bindE (arrayMap chs defaultChoice) (\<lambda>chs'.
     bindE (defaultRiddleData lvl) (\<lambda>rd.
       Inr (JObj [(''levelIndex'', li), (''sceneText'', st),
                  (''enrichedScene'', jsOr es (jsOr st2 (JStr []))),
                  (''choices'', chs'), (''riddleData'', rd)]))))))))"

definition defaultCreature :: "jsval \<Rightarrow> js_error + jsval" where
  "defaultCreature creature =
     bindE (propOr creature ''id'' (JStr ''unknown'')) (\<lambda>i.
     bindE (propOr creature ''name'' (JStr ''Unknown Creature'')) (\<lambda>n.
     bindE (propOr creature ''enrichedIntro'' (JStr [])) (\<lambda>ei.
     bindE (propOr creature ''coreMechanic'' (JStr ''none'')) (\<lambda>cm.
     bindE (propOr creature ''levels'' (JArr [])) (\<lambda>ls.
     bindE (arrayMap ls defaultLevel) (\<lambda>ls'.
     bindE (propOr creature ''victoryText'' (JStr ''You have succeeded.'')) (\<lambda>vt.
     bindE (propOr creature ''defeatText'' (JStr ''You have failed.'')) (\<lambda>dt.
       Inr (JObj [(''id'', i), (''name'', n), (''enrichedIntro'', ei), (''coreMechanic'', cm),
                  (''levels'', ls'), (''victoryText'', vt), (''defeatText'', dt)])))))))))"

definition applySafeDefaultsToCreatureData :: "jsval \<Rightarrow> js_error + jsval" where
  "applySafeDefaultsToCreatureData data =
     (if \<not> truthy data then Inr fallbackCreatureData
      else bindE (getProp data ''creatures'') (\<lambda>cs.
        if \<not> truthy cs then Inr fallbackCreatureData
        else bindE (arrayMap cs defaultCreature) (\<lambda>mapped.
          Inr (JObj [(''creatures'', mapped)]))))"

text \<open>
  \<open>config.key || fallbackUIConfig.key\<close>, and the same with a final \<open>|| {}\<close>.
\<close>

definition uiPropOr :: "jsval \<Rightarrow> string \<Rightarrow> js_error + jsval" where
  "uiPropOr config k =
     bindE (getProp config k) (\<lambda>v.
       if truthy v then Inr v else getProp fallbackUIConfig k)"

definition uiPropOrEmpty :: "jsval \<Rightarrow> string \<Rightarrow> js_error + jsval" where
  "uiPropOrEmpty config k = bindE (uiPropOr config k) (\<lambda>v. Inr (jsOr v (JObj [])))"

definition applySafeDefaultsToUIConfig :: "jsval \<Rightarrow> js_error + jsval" where
  "applySafeDefaultsToUIConfig config =
     (if \<not> truthy config then Inr fallbackUIConfig
      else
        bindE (uiPropOr config ''creatures'') (\<lambda>c.
        bindE (uiPropOr config ''gameStates'') (\<lambda>g.
        bindE (uiPropOrEmpty config ''soundCues'') (\<lambda>s.
        bindE (uiPropOrEmpty config ''transitions'') (\<lambda>t.
        bindE (uiPropOrEmpty config ''accessibility'') (\<lambda>a.
        bindE (uiPropOrEmpty config ''performance'') (\<lambda>p.
          Inr (JObj [(''creatures'', c), (''gameStates'', g), (''soundCues'', s),
                     (''transitions'', t), (''accessibility'', a), (''performance'', p)]))))))))"

text \<open>
  What one \<open>fetch\<close> can come to: the promise rejects (transport error), or it resolves to
  a response with its \<open>ok\<close> flag and a body that \<open>response.json()\<close> parses to a value
  or rejects (\<open>None\<close>).
\<close>

datatype fetch_result = FetchRejected | Response bool "jsval option"

text \<open>The \<open>try\<close> block of \<open>loadCreatureData\<close>, and the function with its \<open>catch\<close>.\<close>

definition loadCreatureData_try :: "fetch_result \<Rightarrow> js_error + jsval" where
  "loadCreatureData_try fr =
     (case fr of
        FetchRejected \<Rightarrow> Inl NetworkFailure
      | Response ok body \<Rightarrow>
          if \<not> ok then Inr fallbackCreatureData
          else (case body of
                  None \<Rightarrow> Inl SyntaxError
                | Some data \<Rightarrow>
                    bindE (validateCreatureData data) (\<lambda>valid.
                      if \<not> valid then Inr fallbackCreatureData
                      else applySafeDefaultsToCreatureData data)))"

definition loadCreatureData :: "fetch_result \<Rightarrow> js_error + jsval" where
  "loadCreatureData fr =
     (case loadCreatureData_try fr of
        Inl error \<Rightarrow> Inr fallbackCreatureData
      | Inr v \<Rightarrow> Inr v)"

definition loadUIConfig_try :: "fetch_result \<Rightarrow> js_error + jsval" where
  "loadUIConfig_try fr =
     (case fr of
        FetchRejected \<Rightarrow> Inl NetworkFailure
      | Response ok body \<Rightarrow>
          if \<not> ok then Inr fallbackUIConfig
          else (case body of
                  None \<Rightarrow> Inl SyntaxError
                | Some config \<Rightarrow>
                    bindE (validateUIConfig config) (\<lambda>valid.
                      if \<not> truthy valid then Inr fallbackUIConfig
                      else applySafeDefaultsToUIConfig config)))"

definition loadUIConfig :: "fetch_result \<Rightarrow> js_error + jsval" where
  "loadUIConfig fr =
     (case loadUIConfig_try fr of
        Inl error \<Rightarrow> Inr fallbackUIConfig
      | Inr v \<Rightarrow> Inr v)"

record GameData =
  creatureData :: jsval
  uiConfig :: jsval

text \<open>
  \<open>loadAllGameData\<close>: \<open>Promise.all\<close> of the two loaders, each run on the outcome of its own
  fetch; the result rejects when either promise rejects.
\<close>

definition loadAllGameData :: "fetch_result \<Rightarrow> fetch_result \<Rightarrow> js_error + GameData" where
  "loadAllGameData creatureFetch uiFetch =
     bindE (loadCreatureData creatureFetch) (\<lambda>cd.
     bindE (loadUIConfig uiFetch) (\<lambda>ui.
       Inr \<lparr>creatureData = cd, uiConfig = ui\<rparr>))"

section \<open>Shapes of a content repository\<close>











text \<open>
  A fetched payload that passes validation with a single creature of one level and no
  choices, and a payload whose only level is \<open>null\<close>.
\<close>

definition thinPayload :: jsval where
  "thinPayload =
     JObj [(''creatures'', JArr [
       JObj [(''id'', JStr ''wisp''), (''name'', JStr ''Wisp''),
             (''levels'', JArr [JObj [(''sceneText'', JStr ''A light in the marsh.'')]])]])]"


text \<open>What the loader makes of \<open>thinPayload\<close>.\<close>

definition thinRepository :: jsval where
  "thinRepository =
     JObj [(''creatures'', JArr [
       JObj [(''id'', JStr ''wisp''), (''name'', JStr ''Wisp''),
             (''enrichedIntro'', JStr []), (''coreMechanic'', JStr ''none''),
             (''levels'', JArr [
               JObj [(''levelIndex'', JNum 0),
                     (''sceneText'', JStr ''A light in the marsh.''),
                     (''enrichedScene'', JStr ''A light in the marsh.''),
                     (''choices'', JArr []), (''riddleData'', JUndefined)]]),
             (''victoryText'', JStr ''You have succeeded.''),
             (''defeatText'', JStr ''You have failed.'')]])]"

text \<open>Payloads that fail validation: a creature with no name, a config with no \<open>gameStates\<close>.\<close>

definition namelessPayload :: jsval where
  "namelessPayload = JObj [(''creatures'', JArr [JObj [(''id'', JStr ''wisp'')]])]"

definition statelessUIConfig :: jsval where
  "statelessUIConfig = JObj [(''creatures'', JObj [])]"

section \<open>Level transitions\<close>

text \<open>
  C10. \<open>completeLevelTransition\<close> checks no phase: from any state it sets the phase to
  \<open>level\<close> and adds exactly 1 to the level index; creature, correct count, outcome,
  consequence text and mechanic state stay as they were. Three calls from level index 0
  give level index 3, above the last level.
\<close>

theorem completeLevelTransition_unguarded:
  "gameState (completeLevelTransition s) = level
   \<and> currentLevel (completeLevelTransition s) = currentLevel s + 1
   \<and> selectedCreature (completeLevelTransition s) = selectedCreature s
   \<and> correctAnswers (completeLevelTransition s) = correctAnswers s
   \<and> outcome (completeLevelTransition s) = outcome s
   \<and> consequenceText (completeLevelTransition s) = consequenceText s
   \<and> mechanicState (completeLevelTransition s) = mechanicState s
   \<and> currentLevel (completeLevelTransition (completeLevelTransition (completeLevelTransition s)))
       = currentLevel s + 3
   \<and> currentLevel (completeLevelTransition (completeLevelTransition
        (completeLevelTransition initialEngine))) > 2"
  by (simp add: completeLevelTransition_def initialEngine_def)

section \<open>Helper facts about a level of play\<close>

lemma playLevel_before_final:
  assumes "selectedCreature s = Some c" "gameState s = level" "currentLevel s \<noteq> 2"
    "chosen c (currentLevel s) i = Some ch"
  shows "playLevel i s =
     s\<lparr>consequenceText := [],
       mechanicState := (if coreMechanic c = ''calmness'' \<and> \<not> isCorrect ch
          then (mechanicState s)\<lparr>calmnessLevel :=
                  Some (decreaseCalmness (calmnessLevel (mechanicState s)) (decreaseAmountAt (currentLevel s)))\<rparr>
          else mechanicState s),
       correctAnswers := correctAnswers s + (if isCorrect ch then 1 else 0),
       transitionFrom := currentLevel s,
       gameState := level,
       currentLevel := currentLevel s + 1\<rparr>"
  using assms
  by (auto simp: playLevel_def makeChoice_def chosen_def levelTransitionTimeout_def
      completeLevelTransition_def Let_def split: option.splits)

lemma playLevel_final:
  assumes "selectedCreature s = Some c" "gameState s = level" "currentLevel s = 2"
    "chosen c 2 i = Some ch"
  shows "playLevel i s =
     s\<lparr>consequenceText := consequence ch,
       mechanicState := (if coreMechanic c = ''calmness'' \<and> \<not> isCorrect ch
          then (mechanicState s)\<lparr>calmnessLevel :=
                  Some (decreaseCalmness (calmnessLevel (mechanicState s)) 35)\<rparr>
          else mechanicState s),
       correctAnswers := correctAnswers s + (if isCorrect ch then 1 else 0),
       outcome := Some (if correctAnswers s + (if isCorrect ch then 1 else 0) \<ge> 2 then victory else defeat),
       gameState := ended\<rparr>"
  using assms
  by (auto simp: playLevel_def makeChoice_def chosen_def decreaseAmountAt_def
      Let_def split: option.splits)

lemma decreaseCalmness_Number:
  "decreaseCalmness (Some (Number n)) d = Number (max 0 (n - d))"
  by (simp add: decreaseCalmness_def)

lemma correct_choice_keeps_mechanicState:
  assumes "selectedCreature t = Some c'" "chosen c' (currentLevel t) j = Some ch" "isCorrect ch"
  shows "mechanicState (fst (makeChoice j t)) = mechanicState t"
  using assms
  by (auto simp: makeChoice_def chosen_def Let_def split: option.splits)

lemmas engine_defs = initialEngine_def startGame_def selectCreature_def completeEntranceAnimation_def
  completeCloseUpAnimation_def advanceStoryBubble_def animationReset_def mechanicDefaults_def
  sampleData_def makeChoice_def playLevel_def completeRun_def levelTransitionTimeout_def
  completeLevelTransition_def levelAt_def choiceAt_def decreaseCalmness_def decreaseAmountAt_def
  restartGame_def goHome_def chosen_def

lemma bansheeStart_fields:
  "gameState bansheeStart = level" "selectedCreature bansheeStart = Some banshee"
  "currentLevel bansheeStart = 0" "correctAnswers bansheeStart = 0"
  "mechanicState bansheeStart = \<lparr>hintsRevealed = None, calmnessLevel = Some (Number 100), tokensCollected = None\<rparr>"
  "coreMechanic banshee = ''calmness''"
  by (simp_all add: bansheeStart_def engine_defs riddler_def banshee_def)

lemma banshee_found:
  "find (\<lambda>x. id_field x = ''banshee'') (creatures sampleData) = Some banshee"
  "id_field banshee = ''banshee''"
  by (simp_all add: sampleData_def riddler_def banshee_def)

lemma bansheeEnd_fields:
  "gameState bansheeEnd = ended" "selectedCreature bansheeEnd = Some banshee"
  "mechanicState bansheeEnd = \<lparr>hintsRevealed = None, calmnessLevel = Some (Number 70), tokensCollected = None\<rparr>"
  by (simp_all add: bansheeEnd_def bansheeStart_def engine_defs riddler_def banshee_def)

section \<open>Outcome of a complete run\<close>

text \<open>
  C1. From the start of level 0 with no correct answer counted, three submitted choices
  (one per level, each an existing choice of that level, with the timer callback and
  \<open>completeLevelTransition\<close> between levels) end in phase \<open>end\<close>, and the outcome is
  victory exactly when at least 2 of the 3 chosen choices have \<open>isCorrect\<close>, defeat
  otherwise: it is a function of the count alone, whatever the order and the indices.
\<close>

theorem outcome_by_correct_count:
  assumes "selectedCreature s = Some c" "gameState s = level"
    "currentLevel s = 0" "correctAnswers s = 0"
    "chosen c 0 i0 = Some c0" "chosen c 1 i1 = Some c1" "chosen c 2 i2 = Some c2"
  shows "outcome (completeRun i0 i1 i2 s)
           = Some (if correctCount [c0, c1, c2] \<ge> 2 then victory else defeat)
         \<and> gameState (completeRun i0 i1 i2 s) = ended"
proof -
  let ?s1 = "playLevel i0 s"
  let ?s2 = "playLevel i1 ?s1"
  have s1: "selectedCreature ?s1 = Some c" "gameState ?s1 = level" "currentLevel ?s1 = 1"
    "correctAnswers ?s1 = (if isCorrect c0 then 1 else 0)"
    using assms by (simp_all add: playLevel_before_final [where c = c and ch = c0])
  have s2: "selectedCreature ?s2 = Some c" "gameState ?s2 = level" "currentLevel ?s2 = 2"
    "correctAnswers ?s2 = (if isCorrect c0 then 1 else 0) + (if isCorrect c1 then 1 else 0)"
    using s1 assms by (simp_all add: playLevel_before_final [where c = c and ch = c1])
  show ?thesis
    unfolding completeRun_def
    using s2 assms
    by (simp add: playLevel_final [where c = c and ch = c2] correctCount_def)
qed

theorem outcome_by_correct_count_witness:
  "gameState bansheeStart = level
   \<and> chosen banshee 0 0 \<noteq> None \<and> chosen banshee 1 1 \<noteq> None \<and> chosen banshee 2 0 \<noteq> None
   \<and> outcome (completeRun 0 1 0 bansheeStart) = Some victory
   \<and> gameState (completeRun 0 1 0 bansheeStart) = ended"
  using outcome_by_correct_count [of bansheeStart banshee 0 "the (chosen banshee 0 0)"
      1 "the (chosen banshee 1 1)" 0 "the (chosen banshee 2 0)"]
  by (simp add: bansheeStart_fields)
     (simp add: banshee_def chosen_def levelAt_def choiceAt_def correctCount_def)

section \<open>The calmness meter\<close>

text \<open>
  C3. For a calmness creature and a starting calmness level in [0,100], after the three
  choices of a complete run the level is
  \<open>max 0 (start - 25 [incorrect at 0] - 30 [incorrect at 1] - 35 [incorrect at 2])\<close>,
  which lies in [0,100]; and a correct choice, at any level and in any state, leaves the
  mechanic state as it was.
\<close>

theorem calmness_after_run:
  assumes "selectedCreature s = Some c" "coreMechanic c = ''calmness''"
    "gameState s = level" "currentLevel s = 0"
    "calmnessLevel (mechanicState s) = Some (Number start)" "0 \<le> start" "start \<le> 100"
    "chosen c 0 i0 = Some c0" "chosen c 1 i1 = Some c1" "chosen c 2 i2 = Some c2"
  shows "calmnessLevel (mechanicState (completeRun i0 i1 i2 s))
           = Some (Number (max 0 (start - (if isCorrect c0 then 0 else 25)
                                        - (if isCorrect c1 then 0 else 30)
                                        - (if isCorrect c2 then 0 else 35))))
         \<and> 0 \<le> max 0 (start - (if isCorrect c0 then 0 else 25)
                             - (if isCorrect c1 then 0 else 30)
                             - (if isCorrect c2 then 0 else 35))
         \<and> max 0 (start - (if isCorrect c0 then 0 else 25)
                         - (if isCorrect c1 then 0 else 30)
                         - (if isCorrect c2 then 0 else 35)) \<le> 100
         \<and> (\<forall>t j c' ch. selectedCreature t = Some c' \<longrightarrow> chosen c' (currentLevel t) j = Some ch
                \<longrightarrow> isCorrect ch \<longrightarrow> mechanicState (fst (makeChoice j t)) = mechanicState t)"
proof -
  let ?d0 = "if isCorrect c0 then 0 else 25 :: int"
  let ?d1 = "if isCorrect c1 then 0 else 30 :: int"
  let ?d2 = "if isCorrect c2 then 0 else 35 :: int"
  let ?s1 = "playLevel i0 s"
  let ?s2 = "playLevel i1 ?s1"
  have s1: "selectedCreature ?s1 = Some c" "gameState ?s1 = level" "currentLevel ?s1 = 1"
    "calmnessLevel (mechanicState ?s1) = Some (Number (max 0 (start - ?d0)))"
    using assms
    by (simp_all add: playLevel_before_final [where c = c and ch = c0]
        decreaseCalmness_Number decreaseAmountAt_def)
  have s2: "selectedCreature ?s2 = Some c" "gameState ?s2 = level" "currentLevel ?s2 = 2"
    "calmnessLevel (mechanicState ?s2) = Some (Number (max 0 (max 0 (start - ?d0) - ?d1)))"
    using s1 assms
    by (simp_all add: playLevel_before_final [where c = c and ch = c1]
        decreaseCalmness_Number decreaseAmountAt_def)
  have s3: "calmnessLevel (mechanicState (playLevel i2 ?s2))
              = Some (Number (max 0 (max 0 (max 0 (start - ?d0) - ?d1) - ?d2)))"
    using s2 assms
    by (simp add: playLevel_final [where c = c and ch = c2] decreaseCalmness_Number)
  have arith: "max 0 (max 0 (max 0 (start - ?d0) - ?d1) - ?d2) = max 0 (start - ?d0 - ?d1 - ?d2)"
    by (simp add: max_def)
  have "calmnessLevel (mechanicState (completeRun i0 i1 i2 s))
          = Some (Number (max 0 (start - ?d0 - ?d1 - ?d2)))"
    unfolding completeRun_def using s3 arith by simp
  moreover have "max 0 (start - ?d0 - ?d1 - ?d2) \<le> 100"
    using assms(7) by (simp add: max_def)
  moreover have "0 \<le> max 0 (start - ?d0 - ?d1 - ?d2)"
    by simp
  ultimately show ?thesis
    using correct_choice_keeps_mechanicState by blast
qed

theorem calmness_after_run_witness:
  "calmnessLevel (mechanicState bansheeStart) = Some (Number 100)
   \<and> chosen banshee 0 1 \<noteq> None \<and> chosen banshee 1 1 \<noteq> None \<and> chosen banshee 2 0 \<noteq> None
   \<and> calmnessLevel (mechanicState (completeRun 1 1 0 bansheeStart)) = Some (Number 45)"
  using calmness_after_run [of bansheeStart banshee 100 1 "the (chosen banshee 0 1)"
      1 "the (chosen banshee 1 1)" 0 "the (chosen banshee 2 0)"]
  by (simp add: bansheeStart_fields)
     (simp add: banshee_def chosen_def levelAt_def choiceAt_def)

section \<open>Invalid operations\<close>

text \<open>
  The guards as the callback of the current render meets them: outside phase \<open>level\<close>,
  or with a choice index outside the choices of the current level, it returns the state
  it was given and schedules no timer; \<open>selectCreature\<close> with an id that no creature of
  the data has, or with no data, returns the state it was given.
\<close>

lemma current_callback_guards:
  "(gameState s \<noteq> level \<longrightarrow> makeChoice i s = (s, None))
   \<and> ((\<forall>c ld. selectedCreature s = Some c \<and> levelAt (levels c) (currentLevel s) = Some ld
          \<longrightarrow> i < 0 \<or> int (length (choices ld)) \<le> i)
        \<longrightarrow> makeChoice i s = (s, None))
   \<and> ((\<forall>x \<in> set (creatures d). id_field x \<noteq> creatureId)
        \<longrightarrow> selectCreature (Some d) creatureId s = s)
   \<and> selectCreature None creatureId s = s"
proof (intro conjI impI)
  assume "gameState s \<noteq> level"
  then show "makeChoice i s = (s, None)"
    by (simp add: makeChoice_def split: option.splits)
next
  assume oor: "\<forall>c ld. selectedCreature s = Some c \<and> levelAt (levels c) (currentLevel s) = Some ld
          \<longrightarrow> i < 0 \<or> int (length (choices ld)) \<le> i"
  show "makeChoice i s = (s, None)"
  proof (cases "selectedCreature s")
    case None
    then show ?thesis by (simp add: makeChoice_def)
  next
    case (Some c)
    show ?thesis
    proof (cases "levelAt (levels c) (currentLevel s)")
      case None
      with Some show ?thesis by (simp add: makeChoice_def)
    next
      case (Some ld)
      with oor \<open>selectedCreature s = Some c\<close> have "choiceAt (choices ld) i = None"
        by (auto simp: choiceAt_def)
      with Some \<open>selectedCreature s = Some c\<close> show ?thesis by (simp add: makeChoice_def)
    qed
  qed
next
  assume "\<forall>x \<in> set (creatures d). id_field x \<noteq> creatureId"
  then have "find (\<lambda>c. id_field c = creatureId) (creatures d) = None"
    by (simp add: find_None_iff)
  then show "selectCreature (Some d) creatureId s = s"
    by (simp add: selectCreature_def)
next
  show "selectCreature None creatureId s = s"
    by (simp add: selectCreature_def)
qed

lemma makeChoice_current_render: "makeChoiceCaptured s i s = makeChoice i s"
  by (simp add: makeChoiceCaptured_def makeChoice_def)

text \<open>A kept callback tests the phase of its own render, whatever the phase is now.\<close>

lemma makeChoiceCaptured_guard:
  "gameState r \<noteq> level \<Longrightarrow> makeChoiceCaptured r i s = (s, None)"
  by (simp add: makeChoiceCaptured_def split: option.splits)

lemma staleChoice_correct:
  "staleChoice 0 =
     ((goHome bansheeStart)\<lparr>consequenceText := ''Her wail softens. A tear falls, luminous and cold.'',
                           correctAnswers := 1\<rparr>, Some 0)"
  by (simp add: staleChoice_def makeChoiceCaptured_def bansheeStart_fields
      banshee_def levelAt_def choiceAt_def Let_def)

lemma staleChoice_incorrect:
  "calmnessLevel (mechanicState (fst (staleChoice 1))) = Some (Number 75)"
  by (simp add: staleChoice_def makeChoiceCaptured_def bansheeStart_fields
      banshee_def levelAt_def choiceAt_def goHome_def mechanicDefaults_def
      decreaseCalmness_def decreaseAmountAt_def Let_def)

text \<open>
  C7. A call of \<open>makeChoice\<close> in a phase other than \<open>level\<close> should change no field of
  the session. The code breaks this for the call that \<open>GameplayScreen\<close>'s timer delivers
  after Back: the session is in phase \<open>select\<close> with no creature, the guard of the kept
  callback still reads phase \<open>level\<close> and the Banshee, and the call sets the consequence
  text and the correct count (choice 0) or lowers the calmness meter (choice 1), and
  schedules the transition timer, which then moves the session to \<open>levelTransition\<close>
  with no creature selected.
\<close>

theorem stale_makeChoice_after_goHome:
  "gameState (goHome bansheeStart) = select
   \<and> selectedCreature (goHome bansheeStart) = None
   \<and> correctAnswers (goHome bansheeStart) = 0
   \<and> consequenceText (goHome bansheeStart) = []
   \<and> calmnessLevel (mechanicState (goHome bansheeStart)) = Some (Number 100)
   \<and> staleChoice 0 =
        ((goHome bansheeStart)\<lparr>consequenceText := ''Her wail softens. A tear falls, luminous and cold.'',
                              correctAnswers := 1\<rparr>, Some 0)
   \<and> correctAnswers (fst (staleChoice 0)) = 1
   \<and> fst (staleChoice 0) \<noteq> goHome bansheeStart
   \<and> calmnessLevel (mechanicState (fst (staleChoice 1))) = Some (Number 75)
   \<and> gameState (levelTransitionTimeout 0 (fst (staleChoice 0))) = levelTransition
   \<and> selectedCreature (levelTransitionTimeout 0 (fst (staleChoice 0))) = None"
proof -
  have before: "correctAnswers (goHome bansheeStart) = 0"
    by (simp add: goHome_def)
  have after: "correctAnswers (fst (staleChoice 0)) = 1"
    by (simp add: staleChoice_correct)
  from before after have "fst (staleChoice 0) \<noteq> goHome bansheeStart"
    by auto
  with after show ?thesis
    by (simp add: staleChoice_correct staleChoice_incorrect levelTransitionTimeout_def)
       (simp add: goHome_def mechanicDefaults_def)
qed

section \<open>Restart and return home\<close>

text \<open>
  C9, as the claim states it, fails: after a finished Banshee session \<open>restartGame\<close>
  installs the full initial mechanic object, with \<open>hintsRevealed = 0\<close>, while
  \<open>selectCreature\<close> of the same id builds \<open>{ calmnessLevel: 100 }\<close> alone, so the two
  resulting states differ.
\<close>

theorem restart_equals_select_counterexample:
  "gameState bansheeEnd = ended
   \<and> selectedCreature bansheeEnd = Some banshee
   \<and> hintsRevealed (mechanicState (restartGame bansheeEnd)) = Some 0
   \<and> hintsRevealed (mechanicState (selectCreature (Some sampleData) ''banshee'' bansheeEnd)) = None
   \<and> restartGame bansheeEnd \<noteq> selectCreature (Some sampleData) ''banshee'' bansheeEnd"
proof -
  have r: "hintsRevealed (mechanicState (restartGame bansheeEnd)) = Some 0"
    by (simp add: restartGame_def mechanicDefaults_def)
  have n: "hintsRevealed (mechanicState (selectCreature (Some sampleData) ''banshee'' bansheeEnd)) = None"
    by (simp add: selectCreature_def banshee_found) (simp add: banshee_def)
  from r n have "restartGame bansheeEnd \<noteq> selectCreature (Some sampleData) ''banshee'' bansheeEnd"
    by auto
  with r n show ?thesis
    by (simp add: bansheeEnd_fields banshee_found)
qed

text \<open>
  C9, amended. For the selected creature \<open>c\<close>, found in the data under its own id,
  \<open>restartGame\<close> moves to \<open>characterReveal\<close>, keeps the creature, and resets level index,
  correct count, consequence text and outcome exactly as \<open>selectCreature\<close> of that id does:
  the two resulting states are equal except for the mechanic state. \<open>restartGame\<close> installs
  the full initial mechanic object (\<open>hintsRevealed 0\<close>, \<open>calmnessLevel 100\<close>,
  \<open>tokensCollected []\<close>), which agrees with the object \<open>selectCreature\<close> builds on the
  field of the creature's own mechanic. \<open>goHome\<close> performs the reset of \<open>restartGame\<close>,
  clears the selected creature and moves to \<open>select\<close>.
\<close>

theorem restart_matches_select_except_mechanics:
  assumes "selectedCreature s = Some c"
    "find (\<lambda>x. id_field x = id_field c) (creatures d) = Some c"
  shows "gameState (restartGame s) = characterReveal
     \<and> selectedCreature (restartGame s) = Some c
     \<and> currentLevel (restartGame s) = 0
     \<and> correctAnswers (restartGame s) = 0
     \<and> consequenceText (restartGame s) = []
     \<and> outcome (restartGame s) = None
     \<and> mechanicState (restartGame s) = mechanicDefaults
     \<and> restartGame s = (selectCreature (Some d) (id_field c) s)\<lparr>mechanicState := mechanicDefaults\<rparr>
     \<and> (coreMechanic c = ''riddle'' \<longrightarrow>
          hintsRevealed (mechanicState (selectCreature (Some d) (id_field c) s))
            = hintsRevealed (mechanicState (restartGame s)))
     \<and> (coreMechanic c = ''calmness'' \<longrightarrow>
          calmnessLevel (mechanicState (selectCreature (Some d) (id_field c) s))
            = calmnessLevel (mechanicState (restartGame s)))
     \<and> (coreMechanic c = ''deduction'' \<longrightarrow>
          tokensCollected (mechanicState (selectCreature (Some d) (id_field c) s))
            = tokensCollected (mechanicState (restartGame s)))
     \<and> goHome s = (restartGame s)\<lparr>selectedCreature := None, gameState := select\<rparr>"
  using assms
  by (simp add: restartGame_def selectCreature_def goHome_def mechanicDefaults_def)

theorem restart_matches_select_except_mechanics_witness:
  "selectedCreature bansheeEnd = Some banshee
   \<and> find (\<lambda>x. id_field x = id_field banshee) (creatures sampleData) = Some banshee
   \<and> gameState (restartGame bansheeEnd) = characterReveal
   \<and> selectedCreature (restartGame bansheeEnd) = Some banshee
   \<and> restartGame bansheeEnd
       = (selectCreature (Some sampleData) ''banshee'' bansheeEnd)\<lparr>mechanicState := mechanicDefaults\<rparr>
   \<and> calmnessLevel (mechanicState (selectCreature (Some sampleData) ''banshee'' bansheeEnd))
       = calmnessLevel (mechanicState (restartGame bansheeEnd))
   \<and> goHome bansheeEnd = (restartGame bansheeEnd)\<lparr>selectedCreature := None, gameState := select\<rparr>"
  using restart_matches_select_except_mechanics [of bansheeEnd banshee sampleData]
  by (simp add: bansheeEnd_fields banshee_found bansheeStart_fields selectCreature_def)

section \<open>The deduction tokens\<close>

lemma tokensOf_toggle:
  "tokensOf (mechanicState (toggleToken t eng)) =
     (if t \<in> set (tokensOf (mechanicState eng))
      then filter (\<lambda>i. i \<noteq> t) (tokensOf (mechanicState eng))
      else tokensOf (mechanicState eng) @ [t])"
  by (simp add: toggleToken_def updateMechanicState_def handleTokenClick_def tokensOf_def)

lemma toggle_other_fields:
  "hintsRevealed (mechanicState (toggleToken t eng)) = hintsRevealed (mechanicState eng)"
  "calmnessLevel (mechanicState (toggleToken t eng)) = calmnessLevel (mechanicState eng)"
  "toggleToken t eng = eng\<lparr>mechanicState := (mechanicState eng)
      \<lparr>tokensCollected := Some (tokensOf (mechanicState (toggleToken t eng)))\<rparr>\<rparr>"
  by (simp_all add: toggleToken_def updateMechanicState_def handleTokenClick_def tokensOf_def)

text \<open>
  C4. Toggling a token adds it to the collected tokens when it is absent and removes it
  when it is present, keeps a duplicate-free collection duplicate-free, and touches nothing
  but \<open>tokensCollected\<close>; toggling the same token twice gives back the original set of
  collected tokens, the other mechanic fields and the rest of the session.
\<close>

theorem toggle_token_twice:
  "(t \<notin> set (tokensOf (mechanicState eng)) \<longrightarrow>
      set (tokensOf (mechanicState (toggleToken t eng))) = insert t (set (tokensOf (mechanicState eng))))
   \<and> (t \<in> set (tokensOf (mechanicState eng)) \<longrightarrow>
      set (tokensOf (mechanicState (toggleToken t eng))) = set (tokensOf (mechanicState eng)) - {t})
   \<and> (distinct (tokensOf (mechanicState eng)) \<longrightarrow> distinct (tokensOf (mechanicState (toggleToken t eng))))
   \<and> set (tokensOf (mechanicState (toggleToken t (toggleToken t eng)))) = set (tokensOf (mechanicState eng))
   \<and> hintsRevealed (mechanicState (toggleToken t (toggleToken t eng))) = hintsRevealed (mechanicState eng)
   \<and> calmnessLevel (mechanicState (toggleToken t (toggleToken t eng))) = calmnessLevel (mechanicState eng)
   \<and> (toggleToken t (toggleToken t eng))\<lparr>mechanicState := mechanicState eng\<rparr> = eng"
proof -
  have twice: "set (tokensOf (mechanicState (toggleToken t (toggleToken t eng)))) = set (tokensOf (mechanicState eng))"
    by (auto simp: tokensOf_toggle)
  have rest: "(toggleToken t (toggleToken t eng))\<lparr>mechanicState := mechanicState eng\<rparr> = eng"
    by (simp add: toggleToken_def updateMechanicState_def)
  show ?thesis
    using twice rest by (auto simp: tokensOf_toggle toggle_other_fields(1,2))
qed

lemma validateCombination_ex:
  "validateCombination ms \<longleftrightarrow> (\<exists>c \<in> set validCombinations. set c \<subseteq> set (tokensOf ms))"
  by (auto simp: validateCombination_def list_ex_iff list_all_iff)

text \<open>
  C5. \<open>validateCombination\<close> holds exactly when the collected tokens contain both
  tokens of one of the three fixed pairs. It is a function of the current tokens only:
  when exactly one pair is collected, toggling off a token of that pair makes it false.
\<close>

theorem revealed_iff_pair_collected:
  "(validateCombination ms \<longleftrightarrow>
     ({''reversed-reflection'', ''no-shadow''} \<subseteq> set (tokensOf ms)
      \<or> {''salt-reaction'', ''garlic-aversion''} \<subseteq> set (tokensOf ms)
      \<or> {''extended-tongue'', ''leathery-wings''} \<subseteq> set (tokensOf ms)))
   \<and> (combo \<in> set validCombinations \<longrightarrow> t \<in> set combo
        \<longrightarrow> set combo \<subseteq> set (tokensOf (mechanicState eng))
        \<longrightarrow> (\<forall>other \<in> set validCombinations. other \<noteq> combo
               \<longrightarrow> \<not> set other \<subseteq> set (tokensOf (mechanicState eng)))
        \<longrightarrow> validateCombination (mechanicState eng)
            \<and> \<not> validateCombination (mechanicState (toggleToken t eng)))"
proof (intro conjI impI)
  show "validateCombination ms \<longleftrightarrow>
     ({''reversed-reflection'', ''no-shadow''} \<subseteq> set (tokensOf ms)
      \<or> {''salt-reaction'', ''garlic-aversion''} \<subseteq> set (tokensOf ms)
      \<or> {''extended-tongue'', ''leathery-wings''} \<subseteq> set (tokensOf ms))"
    by (simp add: validateCombination_def validCombinations_def)
next
  assume "combo \<in> set validCombinations" "set combo \<subseteq> set (tokensOf (mechanicState eng))"
  then show "validateCombination (mechanicState eng)"
    unfolding validateCombination_ex by blast
next
  assume combo: "combo \<in> set validCombinations" and t: "t \<in> set combo"
    and sub: "set combo \<subseteq> set (tokensOf (mechanicState eng))"
    and only: "\<forall>other \<in> set validCombinations. other \<noteq> combo
               \<longrightarrow> \<not> set other \<subseteq> set (tokensOf (mechanicState eng))"
  from t sub have "t \<in> set (tokensOf (mechanicState eng))" by blast
  then have after: "set (tokensOf (mechanicState (toggleToken t eng)))
                      = set (tokensOf (mechanicState eng)) - {t}"
    by (auto simp: tokensOf_toggle)
  show "\<not> validateCombination (mechanicState (toggleToken t eng))"
  proof
    assume "validateCombination (mechanicState (toggleToken t eng))"
    then obtain c where c: "c \<in> set validCombinations"
      and csub: "set c \<subseteq> set (tokensOf (mechanicState eng)) - {t}"
      unfolding validateCombination_ex after by blast
    from csub t have "c \<noteq> combo" by blast
    with only c csub show False by blast
  qed
qed

theorem revealed_iff_pair_collected_witness:
  "validateCombination (mechanicState (deductionEngine [''no-shadow'', ''salt-reaction'', ''reversed-reflection'']))
   \<and> \<not> validateCombination (mechanicState (toggleToken ''no-shadow''
          (deductionEngine [''no-shadow'', ''salt-reaction'', ''reversed-reflection''])))"
  using revealed_iff_pair_collected [of
      "mechanicState (deductionEngine [''no-shadow'', ''salt-reaction'', ''reversed-reflection''])"
      "[''reversed-reflection'', ''no-shadow'']" "''no-shadow''"
      "deductionEngine [''no-shadow'', ''salt-reaction'', ''reversed-reflection'']"]
  by (simp add: validCombinations_def deductionEngine_def tokensOf_def)

theorem toggle_token_twice_witness:
  "''no-shadow'' \<notin> set (tokensOf (mechanicState (deductionEngine [''salt-reaction''])))
   \<and> ''salt-reaction'' \<in> set (tokensOf (mechanicState (deductionEngine [''salt-reaction''])))
   \<and> set (tokensOf (mechanicState (toggleToken ''no-shadow'' (deductionEngine [''salt-reaction'']))))
        = {''salt-reaction'', ''no-shadow''}
   \<and> set (tokensOf (mechanicState (toggleToken ''salt-reaction'' (deductionEngine [''salt-reaction''])))) = {}
   \<and> set (tokensOf (mechanicState (toggleToken ''no-shadow''
        (toggleToken ''no-shadow'' (deductionEngine [''salt-reaction'']))))) = {''salt-reaction''}"
  using toggle_token_twice [of "''no-shadow''" "deductionEngine [''salt-reaction'']"]
    toggle_token_twice [of "''salt-reaction''" "deductionEngine [''salt-reaction'']"]
  by (simp add: deductionEngine_def tokensOf_def) auto

section \<open>The riddle interface\<close>

text \<open>
  C6, amended. A submission trims and lower-cases the raw input, with \<open>trim\<close> and
  \<open>toLowerCase\<close> as the built-ins act on code units up to U+00FF, and compares it with
  the lower-cased answer key, which is not trimmed. On a match the feedback is the correct
  verdict and the session is unchanged. On a mismatch the feedback is the incorrect
  verdict; when the hint is not yet shown, the hint is shown and \<open>hintsRevealed\<close>
  becomes its previous value (0 when absent) plus 1; when the hint is already shown, the
  session is unchanged. \<open>handleRiddleSubmit\<close> compares in the same way, counts a miss in
  its own attempt counter and has no access to \<open>hintsRevealed\<close>.
\<close>

theorem riddle_submission:
  "(toLowerCase (trim raw) = toLowerCase (answerKey rd) \<longrightarrow>
      submitAnswer rd raw (ui, eng)
        = (ui\<lparr>riddleAnswer := raw, answerFeedback := ''Correct! The witch is pleased.''\<rparr>, eng))
   \<and> (toLowerCase (trim raw) \<noteq> toLowerCase (answerKey rd) \<longrightarrow> \<not> showHint ui \<longrightarrow>
      submitAnswer rd raw (ui, eng)
        = (ui\<lparr>riddleAnswer := raw, answerFeedback := ''Incorrect. The witch frowns.'', showHint := True\<rparr>,
           eng\<lparr>mechanicState := (mechanicState eng)
                 \<lparr>hintsRevealed := Some (hintsOrZero (mechanicState eng) + 1)\<rparr>\<rparr>))
   \<and> (toLowerCase (trim raw) \<noteq> toLowerCase (answerKey rd) \<longrightarrow> showHint ui \<longrightarrow>
      submitAnswer rd raw (ui, eng)
        = (ui\<lparr>riddleAnswer := raw, answerFeedback := ''Incorrect. The witch frowns.''\<rparr>, eng))
   \<and> (toLowerCase (trim (gpRiddleAnswer g)) = (case rdo of None \<Rightarrow> [] | Some r \<Rightarrow> toLowerCase (answerKey r)) \<longrightarrow>
      handleRiddleSubmit rdo g
        = (g\<lparr>gpAnswerFeedback := ''Correct! The witch is pleased. You may proceed.'',
              riddleSolved := True, gpRiddleAnswer := []\<rparr>, None))
   \<and> (toLowerCase (trim (gpRiddleAnswer g)) \<noteq> (case rdo of None \<Rightarrow> [] | Some r \<Rightarrow> toLowerCase (answerKey r)) \<longrightarrow>
      riddleAttempts (fst (handleRiddleSubmit rdo g)) = riddleAttempts g + 1
      \<and> riddleSolved (fst (handleRiddleSubmit rdo g)) = riddleSolved g
      \<and> take 9 (gpAnswerFeedback (fst (handleRiddleSubmit rdo g))) = ''Incorrect'')"
  by (simp add: submitAnswer_def handleSubmitAnswer_def handleRiddleSubmit_def updateMechanicState_def Let_def)

lemma riddlerStart_fields:
  "gameState riddlerStart = level"
  "mechanicState riddlerStart = \<lparr>hintsRevealed = Some 0, calmnessLevel = None, tokensCollected = None\<rparr>"
  by (simp_all add: riddlerStart_def initialEngine_def startGame_def selectCreature_def
      completeEntranceAnimation_def completeCloseUpAnimation_def advanceStoryBubble_def
      sampleData_def riddler_def)

lemma normalize_samples:
  "toLowerCase (trim '' Human '') = ''human''"
  "toLowerCase (trim ''dog'') = ''dog''"
  "toLowerCase (trim ''cat'') = ''cat''"
  "toLowerCase (trim ''  HuMan '') = ''human''"
  "toLowerCase '' Human '' = '' human ''"
  "toLowerCase ''human'' = ''human''"
  "toLowerCase (trim ''human'') = ''human''"
  "toLowerCase (trim (CHR 0xA0 # ''Human'')) = ''human''"
  "toLowerCase [CHR 0xC9, CHR 0xD7, CHR 0xDF] = [CHR 0xE9, CHR 0xD7, CHR 0xDF]"
  by (simp_all add: toLowerCase_def trim_def isWhiteSpace_def toLowerCaseChar_def
      upperCaseLetters_def lowerCaseLetters_def)

text \<open>
  C6, as the claim states it, fails twice. Two misses in a row leave \<open>hintsRevealed\<close> at
  1, since the second miss finds the hint already shown; and the input \<open>" Human "\<close> is
  rejected against the key \<open>" Human "\<close>, although both normalise to the same string,
  since the key is only lower-cased.
\<close>

theorem riddle_submission_counterexample:
  "hintsRevealed (mechanicState riddlerStart) = Some 0
   \<and> toLowerCase (trim ''dog'') \<noteq> toLowerCase (trim (answerKey humanRiddle))
   \<and> toLowerCase (trim ''cat'') \<noteq> toLowerCase (trim (answerKey humanRiddle))
   \<and> hintsRevealed (mechanicState (snd (submitAnswer humanRiddle ''cat''
        (submitAnswer humanRiddle ''dog'' (riddleUIReset, riddlerStart))))) = Some 1
   \<and> toLowerCase (trim '' Human '') = toLowerCase (trim (answerKey paddedRiddle))
   \<and> answerFeedback (fst (submitAnswer paddedRiddle '' Human '' (riddleUIReset, riddlerStart)))
        = ''Incorrect. The witch frowns.''"
  by (simp add: submitAnswer_def handleSubmitAnswer_def updateMechanicState_def riddlerStart_fields
      riddleUIReset_def humanRiddle_def paddedRiddle_def normalize_samples hintsOrZero_def Let_def)

theorem riddle_submission_witness:
  "toLowerCase (trim ''  HuMan '') = toLowerCase (answerKey humanRiddle)
   \<and> submitAnswer humanRiddle ''  HuMan '' (riddleUIReset, riddlerStart)
       = (riddleUIReset\<lparr>riddleAnswer := ''  HuMan '',
                        answerFeedback := ''Correct! The witch is pleased.''\<rparr>, riddlerStart)
   \<and> toLowerCase (trim ''dog'') \<noteq> toLowerCase (answerKey humanRiddle)
   \<and> toLowerCase (trim (CHR 0xA0 # ''Human'')) = toLowerCase (answerKey humanRiddle)
   \<and> submitAnswer humanRiddle (CHR 0xA0 # ''Human'') (riddleUIReset, riddlerStart)
       = (riddleUIReset\<lparr>riddleAnswer := CHR 0xA0 # ''Human'',
                        answerFeedback := ''Correct! The witch is pleased.''\<rparr>, riddlerStart)
   \<and> \<not> showHint riddleUIReset
   \<and> hintsRevealed (mechanicState (snd (submitAnswer humanRiddle ''dog'' (riddleUIReset, riddlerStart)))) = Some 1
   \<and> showHint (fst (submitAnswer humanRiddle ''dog'' (riddleUIReset, riddlerStart)))
   \<and> submitAnswer humanRiddle ''cat'' (riddleUIReset\<lparr>showHint := True\<rparr>, riddlerStart)
       = (riddleUIReset\<lparr>showHint := True, riddleAnswer := ''cat'',
                        answerFeedback := ''Incorrect. The witch frowns.''\<rparr>, riddlerStart)"
  using riddle_submission [of "CHR 0xA0 # ''Human''" humanRiddle riddleUIReset riddlerStart
      "\<lparr>gpRiddleAnswer = ''dog'', gpShowHint = False, gpAnswerFeedback = [], riddleSolved = False, riddleAttempts = 0\<rparr>"
      "Some humanRiddle"]
    riddle_submission [of "''  HuMan ''" humanRiddle riddleUIReset riddlerStart
      "\<lparr>gpRiddleAnswer = ''dog'', gpShowHint = False, gpAnswerFeedback = [], riddleSolved = False, riddleAttempts = 0\<rparr>"
      "Some humanRiddle"]
    riddle_submission [of "''dog''" humanRiddle riddleUIReset riddlerStart
      "\<lparr>gpRiddleAnswer = ''human'', gpShowHint = False, gpAnswerFeedback = [], riddleSolved = False, riddleAttempts = 0\<rparr>"
      "Some humanRiddle"]
    riddle_submission [of "''cat''" humanRiddle "riddleUIReset\<lparr>showHint := True\<rparr>" riddlerStart
      "\<lparr>gpRiddleAnswer = ''human'', gpShowHint = False, gpAnswerFeedback = [], riddleSolved = False, riddleAttempts = 0\<rparr>"
      None]
  by (simp add: normalize_samples humanRiddle_def riddleUIReset_def riddlerStart_fields hintsOrZero_def)

section \<open>Facts about the loader\<close>

















lemma loadUIConfig_total: "\<exists>ui. loadUIConfig u = Inr ui"
  by (cases "loadUIConfig_try u") (simp_all add: loadUIConfig_def)

lemma loadCreatureData_total: "\<exists>cd. loadCreatureData f = Inr cd"
  by (cases "loadCreatureData_try f") (simp_all add: loadCreatureData_def)

lemmas loader_defs = loadCreatureData_def loadCreatureData_try_def validateCreatureData_def
  applySafeDefaultsToCreatureData_def defaultCreature_def defaultLevel_def defaultChoice_def
  defaultRiddleData_def propOr_def propNullish_def jsOr_def jsNullish_def arrayMap_def bindE_def
  loadUIConfig_def loadUIConfig_try_def validateUIConfig_def loadAllGameData_def

lemma thin_loaded:
  "validateCreatureData thinPayload = Inr True"
  "loadCreatureData (Response True (Some thinPayload)) = Inr thinRepository"
  "applySafeDefaultsToCreatureData thinPayload = Inr thinRepository"
  by (simp_all add: loader_defs thinPayload_def thinRepository_def)


lemma invalid_samples:
  "validateCreatureData namelessPayload = Inr False"
  "validateUIConfig statelessUIConfig = Inr JUndefined"
  by (simp_all add: loader_defs namelessPayload_def statelessUIConfig_def)


lemma loadUIConfig_failures:
  "loadUIConfig FetchRejected = Inr fallbackUIConfig"
  "loadUIConfig (Response False body) = Inr fallbackUIConfig"
  "loadUIConfig (Response True None) = Inr fallbackUIConfig"
  by (simp_all add: loadUIConfig_def loadUIConfig_try_def)

lemma loadCreatureData_failures:
  "loadCreatureData FetchRejected = Inr fallbackCreatureData"
  "loadCreatureData (Response False body) = Inr fallbackCreatureData"
  "loadCreatureData (Response True None) = Inr fallbackCreatureData"
  by (simp_all add: loadCreatureData_def loadCreatureData_try_def)

section \<open>What the loader returns\<close>




section \<open>Totality and independence of the two loads\<close>

text \<open>
  C8. For every outcome of the two fetches both loaders and \<open>loadAllGameData\<close> return a
  value and never an error, the creature data of the result is what \<open>loadCreatureData\<close>
  makes of its own fetch and the UI config what \<open>loadUIConfig\<close> makes of its own. A
  rejected fetch, a response that is not ok, a body that does not parse and a payload that
  fails validation each give the embedded fallback of that dataset.
\<close>

theorem loading_is_total_and_independent:
  "(\<exists>cd ui. loadCreatureData f = Inr cd \<and> loadUIConfig u = Inr ui
        \<and> loadAllGameData f u = Inr \<lparr>creatureData = cd, uiConfig = ui\<rparr>)
   \<and> loadCreatureData FetchRejected = Inr fallbackCreatureData
   \<and> loadCreatureData (Response False body) = Inr fallbackCreatureData
   \<and> loadCreatureData (Response True None) = Inr fallbackCreatureData
   \<and> (validateCreatureData d \<noteq> Inr True
        \<longrightarrow> loadCreatureData (Response True (Some d)) = Inr fallbackCreatureData)
   \<and> loadUIConfig FetchRejected = Inr fallbackUIConfig
   \<and> loadUIConfig (Response False body) = Inr fallbackUIConfig
   \<and> loadUIConfig (Response True None) = Inr fallbackUIConfig
   \<and> ((\<forall>v. validateUIConfig c = Inr v \<longrightarrow> \<not> truthy v)
        \<longrightarrow> loadUIConfig (Response True (Some c)) = Inr fallbackUIConfig)"
proof -
  obtain ui where ui: "loadUIConfig u = Inr ui"
    using loadUIConfig_total by blast
  obtain cd where cd: "loadCreatureData f = Inr cd"
    using loadCreatureData_total by blast
  have all: "\<exists>cd ui. loadCreatureData f = Inr cd \<and> loadUIConfig u = Inr ui
        \<and> loadAllGameData f u = Inr \<lparr>creatureData = cd, uiConfig = ui\<rparr>"
    by (simp add: loadAllGameData_def bindE_def ui cd)
  have cv: "validateCreatureData d \<noteq> Inr True
        \<longrightarrow> loadCreatureData (Response True (Some d)) = Inr fallbackCreatureData"
    by (cases "validateCreatureData d")
       (auto simp: loadCreatureData_def loadCreatureData_try_def bindE_def)
  have uv: "(\<forall>v. validateUIConfig c = Inr v \<longrightarrow> \<not> truthy v)
        \<longrightarrow> loadUIConfig (Response True (Some c)) = Inr fallbackUIConfig"
    by (cases "validateUIConfig c")
       (auto simp: loadUIConfig_def loadUIConfig_try_def bindE_def)
  from all cv uv show ?thesis
    by (simp add: loadCreatureData_failures loadUIConfig_failures)
qed

theorem loading_is_total_and_independent_witness:
  "validateCreatureData namelessPayload \<noteq> Inr True
   \<and> loadCreatureData (Response True (Some namelessPayload)) = Inr fallbackCreatureData
   \<and> validateUIConfig statelessUIConfig = Inr JUndefined
   \<and> loadUIConfig (Response True (Some statelessUIConfig)) = Inr fallbackUIConfig
   \<and> loadAllGameData (Response True (Some namelessPayload)) (Response True (Some statelessUIConfig))
       = Inr \<lparr>creatureData = fallbackCreatureData, uiConfig = fallbackUIConfig\<rparr>
   \<and> loadAllGameData (Response True (Some thinPayload)) (Response True (Some statelessUIConfig))
       = Inr \<lparr>creatureData = thinRepository, uiConfig = fallbackUIConfig\<rparr>"
  using loading_is_total_and_independent [of "Response True (Some namelessPayload)"
      "Response True (Some statelessUIConfig)" None namelessPayload statelessUIConfig]
    loading_is_total_and_independent [of "Response True (Some thinPayload)"
      "Response True (Some statelessUIConfig)" None namelessPayload statelessUIConfig]
  by (auto simp: invalid_samples thin_loaded)

end
